theory Spec2Isabelle
  imports Complex_Main "HOL-Library.Sublist"
begin

section \<open>JavaScript values\<close>

text \<open>
  A JavaScript string is a sequence of UTF-16 code units, each given by its number (below
  65536; the code does no arithmetic on them that could leave this range). Literals of the
  source are written \<open>ustr ''...''\<close>; a code unit outside ASCII is written as its number.
\<close>

type_synonym jschar = nat
type_synonym jsstring = "jschar list"

definition ustr :: "string \<Rightarrow> jsstring" where
  "ustr s = map of_char s"

text \<open>
  A JavaScript number, as far as the code looks at it: the code never computes with
  coordinates, it tests them for truthiness and compares them with \<open>0\<close>. The two zeros
  \<open>+0\<close> and \<open>-0\<close> are both \<open>Finite 0\<close>: both are falsy and both are \<open>=== 0\<close>.
\<close>

datatype number = Finite real | PosInfinity | NegInfinity | NaN

definition truthyNumber :: "number option \<Rightarrow> bool" where
  "truthyNumber n = (case n of None \<Rightarrow> False | Some (Finite r) \<Rightarrow> r \<noteq> 0 | Some NaN \<Rightarrow> False
     | Some _ \<Rightarrow> True)"

text \<open>Truthiness of a value that is a string or \<open>undefined\<close>, and the operator \<open>||\<close> on such values.\<close>

definition truthy :: "jsstring option \<Rightarrow> bool" where
  "truthy v = (case v of None \<Rightarrow> False | Some s \<Rightarrow> s \<noteq> [])"

definition orElse :: "jsstring option \<Rightarrow> jsstring option \<Rightarrow> jsstring option" where
  "orElse a b = (if truthy a then a else b)"

text \<open>
  \<open>Number.prototype.toString\<close> on the identifier of an OpenStreetMap element: an integer
  below \<open>10^21\<close> in absolute value, printed in decimal.
\<close>

fun digits :: "nat \<Rightarrow> jsstring" where
  "digits n = (if n < 10 then [n + 0x30] else digits (n div 10) @ [n mod 10 + 0x30])"

declare digits.simps [simp del]

definition numberToString :: "int \<Rightarrow> jsstring" where
  "numberToString i = (if i < 0 then 0x2D # digits (nat (- i)) else digits (nat i))"

subsection \<open>Objects with string values\<close>

text \<open>
  An object whose values are strings (\<open>Record<string, string>\<close>) is an association list in
  insertion order. Assigning to a key that exists keeps its place, a new key goes last.
\<close>

type_synonym dict = "(jsstring \<times> jsstring) list"

definition lookup :: "dict \<Rightarrow> jsstring \<Rightarrow> jsstring option" where
  "lookup d k = map_of d k"

fun assign :: "jsstring \<Rightarrow> 'v \<Rightarrow> (jsstring \<times> 'v) list \<Rightarrow> (jsstring \<times> 'v) list" where
  "assign k v [] = [(k, v)]"
| "assign k v (p # ps) = (if fst p = k then (k, v) # ps else p # assign k v ps)"

subsection \<open>String built-ins\<close>

text \<open>
  \<open>String.prototype.toLowerCase\<close> and \<open>normalize('NFD')\<close> belong to the JavaScript
  engine. On a string of code units up to U+00FF both are fixed by a small table, which is
  written out here. On any other string they are parameters of the model.
\<close>

record runtime =
  unicodeLower :: "jsstring \<Rightarrow> jsstring"
  unicodeNFD :: "jsstring \<Rightarrow> jsstring"

definition latin1Lower :: "jschar \<Rightarrow> jschar" where
  "latin1Lower c =
     (if (0x41 \<le> c \<and> c \<le> 0x5A) \<or> (0xC0 \<le> c \<and> c \<le> 0xDE \<and> c \<noteq> 0xD7) then c + 0x20 else c)"

definition toLowerCase :: "runtime \<Rightarrow> jsstring \<Rightarrow> jsstring" where
  "toLowerCase rt s = (if list_all (\<lambda>c. c \<le> 0xFF) s then map latin1Lower s else unicodeLower rt s)"

text \<open>The canonical decompositions of the Latin-1 letters: base letter and combining mark.\<close>

definition latin1Decompositions :: "(jschar \<times> jschar \<times> jschar) list" where
  "latin1Decompositions =
    [(0xC0, 0x41, 0x0300), (0xC1, 0x41, 0x0301), (0xC2, 0x41, 0x0302), (0xC3, 0x41, 0x0303),
     (0xC4, 0x41, 0x0308), (0xC5, 0x41, 0x030A), (0xC7, 0x43, 0x0327), (0xC8, 0x45, 0x0300),
     (0xC9, 0x45, 0x0301), (0xCA, 0x45, 0x0302), (0xCB, 0x45, 0x0308), (0xCC, 0x49, 0x0300),
     (0xCD, 0x49, 0x0301), (0xCE, 0x49, 0x0302), (0xCF, 0x49, 0x0308), (0xD1, 0x4E, 0x0303),
     (0xD2, 0x4F, 0x0300), (0xD3, 0x4F, 0x0301), (0xD4, 0x4F, 0x0302), (0xD5, 0x4F, 0x0303),
     (0xD6, 0x4F, 0x0308), (0xD9, 0x55, 0x0300), (0xDA, 0x55, 0x0301), (0xDB, 0x55, 0x0302),
     (0xDC, 0x55, 0x0308), (0xDD, 0x59, 0x0301), (0xE0, 0x61, 0x0300), (0xE1, 0x61, 0x0301),
     (0xE2, 0x61, 0x0302), (0xE3, 0x61, 0x0303), (0xE4, 0x61, 0x0308), (0xE5, 0x61, 0x030A),
     (0xE7, 0x63, 0x0327), (0xE8, 0x65, 0x0300), (0xE9, 0x65, 0x0301), (0xEA, 0x65, 0x0302),
     (0xEB, 0x65, 0x0308), (0xEC, 0x69, 0x0300), (0xED, 0x69, 0x0301), (0xEE, 0x69, 0x0302),
     (0xEF, 0x69, 0x0308), (0xF1, 0x6E, 0x0303), (0xF2, 0x6F, 0x0300), (0xF3, 0x6F, 0x0301),
     (0xF4, 0x6F, 0x0302), (0xF5, 0x6F, 0x0303), (0xF6, 0x6F, 0x0308), (0xF9, 0x75, 0x0300),
     (0xFA, 0x75, 0x0301), (0xFB, 0x75, 0x0302), (0xFC, 0x75, 0x0308), (0xFD, 0x79, 0x0301),
     (0xFF, 0x79, 0x0308)]"

definition latin1NFD :: "jschar \<Rightarrow> jsstring" where
  "latin1NFD c = (case map_of latin1Decompositions c of None \<Rightarrow> [c] | Some (b, m) \<Rightarrow> [b, m])"

definition normalizeNFD :: "runtime \<Rightarrow> jsstring \<Rightarrow> jsstring" where
  "normalizeNFD rt s =
     (if list_all (\<lambda>c. c \<le> 0xFF) s then concat (map latin1NFD s) else unicodeNFD rt s)"

text \<open>\<open>String.prototype.includes\<close>: the argument occurs as a contiguous run of code units.\<close>

fun includesStr :: "jsstring \<Rightarrow> jsstring \<Rightarrow> bool" where
  "includesStr [] sub = (sub = [])"
| "includesStr (c # s) sub = (prefix sub (c # s) \<or> includesStr s sub)"

text \<open>\<open>String.prototype.trim\<close> strips the white space and line terminators of ECMAScript.\<close>

definition isWhiteSpace :: "jschar \<Rightarrow> bool" where
  "isWhiteSpace c =
     (c \<in> set [0x09, 0x0A, 0x0B, 0x0C, 0x0D, 0x20, 0xA0, 0x1680, 0x2028, 0x2029, 0x202F, 0x205F,
               0x3000, 0xFEFF]
      \<or> (0x2000 \<le> c \<and> c \<le> 0x200A))"

definition trim :: "jsstring \<Rightarrow> jsstring" where
  "trim s = rev (dropWhile isWhiteSpace (rev (dropWhile isWhiteSpace s)))"

section \<open>Data model (types/fortification.ts)\<close>

text \<open>
  The property bag of a feature. Its string-valued entries are one object; the two
  array-valued properties that the enrichment writes have their own fields. Values of
  other types that the code never reads are not represented.
\<close>

record property_bag =
  entries :: dict
  imageUrls :: "jsstring list option"
  externalLinks :: "(jsstring \<times> jsstring) list option"

definition getProp :: "property_bag \<Rightarrow> string \<Rightarrow> jsstring option" where
  "getProp p k = lookup (entries p) (ustr k)"

definition setProp :: "string \<Rightarrow> jsstring \<Rightarrow> property_bag \<Rightarrow> property_bag" where
  "setProp k v p = p\<lparr>entries := assign (ustr k) v (entries p)\<rparr>"

datatype geometry = Point number number | Polygon "number list list list"

text \<open>
  A feature. The property bag is a parameter of the type: the normalizer and the
  evaluator work on features that hold their bag, the enrichment on features that hold a
  reference to a bag in the store.
\<close>

record 'p feature =
  ftype :: jsstring
  fid :: "jsstring option"
  geometry :: geometry
  properties :: 'p

record FilterOption =
  oid :: jsstring
  label :: jsstring
  ovalue :: jsstring
  ocount :: nat

record FilterGroup =
  gid :: jsstring
  gname :: jsstring
  options :: "FilterOption list"

section \<open>Geometry normalizer (hooks/useGeoJSON.ts, convertOSMToGeoJSON)\<close>

record element =
  etype :: jsstring
  eid :: int
  lat :: "number option"
  lon :: "number option"
  tags :: "dict option"

record OSMResponse =
  elements :: "element list"

definition fortificationTags :: "jsstring list" where
  "fortificationTags =
     map ustr [''castle'', ''fort'', ''bunker'', ''fortification'', ''fortress'', ''citadel'',
               ''bastion'', ''battery'', ''palace'', ''chateau'', ''tower'', ''mansion'']"

definition typeMapping :: "(jsstring \<times> jsstring) list" where
  "typeMapping =
     [(ustr ''castle'', ustr ''Castle''), (ustr ''fort'', ustr ''Fort''),
      (ustr ''fortress'', ustr ''Fortress''), (ustr ''bunker'', ustr ''Bunker''),
      (ustr ''fortification'', ustr ''Fortification''), (ustr ''citadel'', ustr ''Citadel''),
      (ustr ''bastion'', ustr ''Bastion''), (ustr ''battery'', ustr ''Battery''),
      (ustr ''palace'', ustr ''Palace''), (ustr ''chateau'', ustr ''Ch'' @ [0xE2] @ ustr ''teau''),
      (ustr ''tower'', ustr ''Tower''), (ustr ''mansion'', ustr ''Mansion'')]"

text \<open>The tag of an element under a key; \<open>undefined\<close> when the element has no tags.\<close>

definition tag :: "element \<Rightarrow> string \<Rightarrow> jsstring option" where
  "tag e k = (case tags e of None \<Rightarrow> None | Some t \<Rightarrow> lookup t (ustr k))"

text \<open>The callback of the first \<open>filter\<close>: is the element a fortification?\<close>

definition isHistoric :: "runtime \<Rightarrow> element \<Rightarrow> bool" where
  "isHistoric rt e =
     (case tag e ''historic'' of None \<Rightarrow> False
      | Some h \<Rightarrow> h \<noteq> [] \<and>
          list_ex (\<lambda>t. includesStr (toLowerCase rt h) (toLowerCase rt t)) fortificationTags)"

definition isMilitary :: "runtime \<Rightarrow> element \<Rightarrow> bool" where
  "isMilitary rt e =
     (case tag e ''military'' of None \<Rightarrow> False
      | Some m \<Rightarrow> m \<noteq> [] \<and> toLowerCase rt m \<in> set [ustr ''bunker'', ustr ''fortress''])"

definition hasDefenceTag :: "element \<Rightarrow> bool" where
  "hasDefenceTag e = (truthy (tag e ''defence'') \<or> truthy (tag e ''defense''))"

definition isFortification :: "runtime \<Rightarrow> element \<Rightarrow> bool" where
  "isFortification rt e =
     (if tags e = None then False
      else isHistoric rt e \<or> isMilitary rt e \<or> hasDefenceTag e)"

text \<open>The callback of \<open>map\<close>: the feature built for an element.\<close>

definition elementGeometry :: "element \<Rightarrow> geometry" where
  "elementGeometry e =
     (case (lon e, lat e) of
        (Some x, Some y) \<Rightarrow>
          if etype e = ustr ''node'' \<and> truthyNumber (lat e) \<and> truthyNumber (lon e)
          then Point x y else Point (Finite 0) (Finite 0)
      | _ \<Rightarrow> Point (Finite 0) (Finite 0))"

definition mappedDisplayType :: "runtime \<Rightarrow> element \<Rightarrow> property_bag \<Rightarrow> property_bag" where
  "mappedDisplayType rt e p =
     (case tag e ''historic'' of None \<Rightarrow> p
      | Some h \<Rightarrow>
          if h = [] then p
          else (case find (\<lambda>(key, displayName). includesStr (toLowerCase rt h) key) typeMapping of
                  Some (key, displayName) \<Rightarrow> setProp ''display_type'' displayName p
                | None \<Rightarrow> p))"

definition historicDisplayType :: "element \<Rightarrow> property_bag \<Rightarrow> property_bag" where
  "historicDisplayType e p =
     (case tag e ''historic'' of None \<Rightarrow> p
      | Some h \<Rightarrow>
          if \<not> truthy (getProp p ''display_type'') \<and> h \<noteq> []
          then setProp ''display_type'' h p else p)"

definition militaryDisplayType :: "runtime \<Rightarrow> element \<Rightarrow> property_bag \<Rightarrow> property_bag" where
  "militaryDisplayType rt e p =
     (case tag e ''military'' of None \<Rightarrow> p
      | Some m \<Rightarrow>
          if \<not> truthy (getProp p ''display_type'') \<and> m \<noteq> [] then
            (if toLowerCase rt m = ustr ''bunker'' then setProp ''display_type'' (ustr ''Bunker'') p
             else if toLowerCase rt m = ustr ''fortress''
             then setProp ''display_type'' (ustr ''Fortress'') p
             else p)
          else p)"

definition elementProperties :: "runtime \<Rightarrow> element \<Rightarrow> property_bag" where
  "elementProperties rt e =
     militaryDisplayType rt e (historicDisplayType e (mappedDisplayType rt e
       \<lparr>entries = assign (ustr ''@id'') (etype e @ ustr ''/'' @ numberToString (eid e))
                   (case tags e of None \<Rightarrow> [] | Some t \<Rightarrow> t),
        imageUrls = None, externalLinks = None\<rparr>))"

definition toFeature :: "runtime \<Rightarrow> element \<Rightarrow> property_bag feature" where
  "toFeature rt e =
     \<lparr>ftype = ustr ''Feature'', fid = Some (numberToString (eid e)),
      geometry = elementGeometry e, properties = elementProperties rt e\<rparr>"

text \<open>The callback of the second \<open>filter\<close>: keep all but the points at \<open>[0, 0]\<close>.\<close>

definition validGeometry :: "'p feature \<Rightarrow> bool" where
  "validGeometry f =
     (\<not> (case geometry f of Point x y \<Rightarrow> x = Finite 0 \<and> y = Finite 0 | Polygon rs \<Rightarrow> False))"

definition convertOSMToGeoJSON :: "runtime \<Rightarrow> OSMResponse \<Rightarrow> property_bag feature list" where
  "convertOSMToGeoJSON rt osmData =
     filter validGeometry (map (toFeature rt) (filter (isFortification rt) (elements osmData)))"

section \<open>Filter index builder (hooks/useGeoJSON.ts, generateFilters)\<close>

text \<open>
  A \<open>Map<string, number>\<close> in insertion order, and one counting step
  \<open>map.set(key, (map.get(key) || 0) + 1)\<close>.
\<close>

type_synonym counts = "(jsstring \<times> nat) list"

definition bump :: "jsstring \<Rightarrow> counts \<Rightarrow> counts" where
  "bump k m = assign k ((case map_of m k of None \<Rightarrow> 0 | Some n \<Rightarrow> n) + 1) m"

text \<open>The operator \<open>||\<close> with a string literal as its last operand.\<close>

definition orString :: "jsstring option \<Rightarrow> jsstring \<Rightarrow> jsstring" where
  "orString a s = (case a of None \<Rightarrow> s | Some v \<Rightarrow> if v \<noteq> [] then v else s)"

text \<open>The body of \<open>forts.forEach\<close>, on the three maps.\<close>

definition countFort :: "counts \<times> counts \<times> counts \<Rightarrow> property_bag feature \<Rightarrow> counts \<times> counts \<times> counts" where
  "countFort maps fort =
     (case maps of (typeMap, periodMap, regionMap) \<Rightarrow>
        (let type = orString (orElse (getProp (properties fort) ''chptico'')
                                     (getProp (properties fort) ''historic'')) (ustr ''Unknown'');
             period = getProp (properties fort) ''period'';
             region = getProp (properties fort) ''chpreg''
         in (if type \<noteq> [] then bump type typeMap else typeMap,
             case period of None \<Rightarrow> periodMap
             | Some v \<Rightarrow> if v \<noteq> [] then bump v periodMap else periodMap,
             case region of None \<Rightarrow> regionMap
             | Some v \<Rightarrow> if v \<noteq> [] then bump v regionMap else regionMap)))"

definition toOptions :: "string \<Rightarrow> counts \<Rightarrow> FilterOption list" where
  "toOptions pre m =
     map (\<lambda>(value, count). \<lparr>oid = ustr pre @ value, label = value, ovalue = value, ocount = count\<rparr>) m"

text \<open>
  \<open>options.sort((a, b) => b.count - a.count)\<close>. \<open>Array.prototype.sort\<close> is stable, so its
  result is the one that insertion from the right gives.
\<close>

fun insertByCount :: "FilterOption \<Rightarrow> FilterOption list \<Rightarrow> FilterOption list" where
  "insertByCount a [] = [a]"
| "insertByCount a (b # bs) =
     (if int (ocount b) - int (ocount a) \<le> 0 then a # b # bs else b # insertByCount a bs)"

definition sortByCount :: "FilterOption list \<Rightarrow> FilterOption list" where
  "sortByCount xs = foldr insertByCount xs []"

definition generateFilters :: "property_bag feature list \<Rightarrow> FilterGroup list" where
  "generateFilters forts =
     (case foldl countFort ([], [], []) forts of (typeMap, periodMap, regionMap) \<Rightarrow>
        (let typeFilter = \<lparr>gid = ustr ''type'', gname = ustr ''Type'',
                            options = sortByCount (toOptions ''type-'' typeMap)\<rparr>;
             periodFilter = \<lparr>gid = ustr ''period'', gname = ustr ''Period'',
                              options = sortByCount (toOptions ''period-'' periodMap)\<rparr>;
             regionFilter = \<lparr>gid = ustr ''region'', gname = ustr ''Region'',
                              options = sortByCount (toOptions ''region-'' regionMap)\<rparr>
         in [typeFilter]
            @ (if length (options periodFilter) > 0 then [periodFilter] else [])
            @ (if length (options regionFilter) > 0 then [regionFilter] else [])))"

section \<open>Search and filter evaluator (components/FortificationMap.tsx)\<close>

definition removeMarks :: "jsstring \<Rightarrow> jsstring" where
  "removeMarks s = filter (\<lambda>c. \<not> (0x0300 \<le> c \<and> c \<le> 0x036F)) s"

definition normalizeText :: "runtime \<Rightarrow> jsstring \<Rightarrow> jsstring" where
  "normalizeText rt text = trim (toLowerCase rt (removeMarks (normalizeNFD rt text)))"

text \<open>
  The active filters, a \<open>Record<string, string | null>\<close>: an association list whose values
  are \<open>None\<close> for \<open>null\<close>. \<open>activeFilter\<close> reads one of them; \<open>null\<close> and \<open>undefined\<close> are
  both falsy and both differ from every string.
\<close>

type_synonym filters = "(jsstring \<times> jsstring option) list"

definition activeFilter :: "filters \<Rightarrow> string \<Rightarrow> jsstring option" where
  "activeFilter activeFilters k =
     (case map_of activeFilters (ustr k) of Some (Some v) \<Rightarrow> Some v | _ \<Rightarrow> None)"

definition fortName :: "property_bag feature \<Rightarrow> jsstring" where
  "fortName fort =
     orString (orElse (getProp (properties fort) ''name'') (getProp (properties fort) ''chpdeno'')) []"

definition fortAddress :: "property_bag feature \<Rightarrow> jsstring" where
  "fortAddress fort =
     orString (orElse (getProp (properties fort) ''chpadrs'') (getProp (properties fort) ''chplieu'')) []"

definition fortType :: "property_bag feature \<Rightarrow> jsstring option" where
  "fortType fort =
     orElse (getProp (properties fort) ''chptico'') (getProp (properties fort) ''historic'')"

text \<open>The search filter: the block guarded by \<open>if (searchTerm)\<close>.\<close>

definition searchFilter :: "runtime \<Rightarrow> jsstring \<Rightarrow> property_bag feature \<Rightarrow> bool" where
  "searchFilter rt searchTerm fort =
     (if searchTerm \<noteq> [] then
        (let normalizedName = normalizeText rt (fortName fort);
             normalizedAddress = normalizeText rt (fortAddress fort);
             normalizedSearch = normalizeText rt searchTerm
         in \<not> (\<not> includesStr normalizedName normalizedSearch
                \<and> \<not> includesStr normalizedAddress normalizedSearch))
      else True)"

text \<open>The callback of the \<open>filter\<close> that runs when a search term or a filter is active.\<close>

definition passesFilters :: "runtime \<Rightarrow> filters \<Rightarrow> jsstring \<Rightarrow> property_bag feature \<Rightarrow> bool" where
  "passesFilters rt activeFilters searchTerm fort =
     (if trim (fortName fort) = [] then False
      else if \<not> searchFilter rt searchTerm fort then False
      else if truthy (activeFilter activeFilters ''type'')
              \<and> fortType fort \<noteq> activeFilter activeFilters ''type'' then False
      else if truthy (activeFilter activeFilters ''period'')
              \<and> getProp (properties fort) ''period'' \<noteq> activeFilter activeFilters ''period'' then False
      else if truthy (activeFilter activeFilters ''region'')
              \<and> getProp (properties fort) ''chpreg'' \<noteq> activeFilter activeFilters ''region'' then False
      else True)"

definition filteredFortifications ::
  "runtime \<Rightarrow> property_bag feature list \<Rightarrow> filters \<Rightarrow> jsstring \<Rightarrow> property_bag feature list" where
  "filteredFortifications rt fortifications activeFilters searchTerm =
     (if searchTerm = [] \<and> length activeFilters = 0
      then filter (\<lambda>fort. trim (fortName fort) \<noteq> []) fortifications
      else filter (passesFilters rt activeFilters searchTerm) fortifications)"

subsection \<open>The revision without the name test (src/unnamed/part_002)\<close>

text \<open>
  The map component is in the repository in a second revision, \<open>src/unnamed/part_002\<close>. Its
  \<open>normalizeText\<close> and its search, type, period and region tests are the ones above. It
  does not test the name: its callback starts with the search filter, and with no search
  term and no active filter it returns the list as given.
\<close>

definition passesFilters_part_002 ::
  "runtime \<Rightarrow> filters \<Rightarrow> jsstring \<Rightarrow> property_bag feature \<Rightarrow> bool" where
  "passesFilters_part_002 rt activeFilters searchTerm fort =
     (if \<not> searchFilter rt searchTerm fort then False
      else if truthy (activeFilter activeFilters ''type'')
              \<and> fortType fort \<noteq> activeFilter activeFilters ''type'' then False
      else if truthy (activeFilter activeFilters ''period'')
              \<and> getProp (properties fort) ''period'' \<noteq> activeFilter activeFilters ''period'' then False
      else if truthy (activeFilter activeFilters ''region'')
              \<and> getProp (properties fort) ''chpreg'' \<noteq> activeFilter activeFilters ''region'' then False
      else True)"

definition filteredFortifications_part_002 ::
  "runtime \<Rightarrow> property_bag feature list \<Rightarrow> filters \<Rightarrow> jsstring \<Rightarrow> property_bag feature list" where
  "filteredFortifications_part_002 rt fortifications activeFilters searchTerm =
     (if searchTerm = [] \<and> length activeFilters = 0
      then fortifications
      else filter (passesFilters_part_002 rt activeFilters searchTerm) fortifications)"

section \<open>Enrichment client (hooks/useExternalData.ts)\<close>

text \<open>
  The hook is in the repository in two revisions. The model follows the one with the image
  search, \<open>src/unnamed/part_004\<close>; the other one is modelled after it, from the same parts.
\<close>

subsection \<open>Asynchronous code that may throw\<close>

text \<open>
  An \<open>async\<close> function is a function from the state before to a result and the state
  after; the result is the value the promise resolves with, or the exception it rejects
  with. \<open>await\<close> is \<open>andThen\<close>, \<open>try ... catch\<close> is \<open>tryCatch\<close>.
\<close>

datatype exn = NetworkError | SyntaxError | URIError | Error jsstring

type_synonym ('s, 'a) js = "'s \<Rightarrow> (exn + 'a) \<times> 's"

definition ret :: "'a \<Rightarrow> ('s, 'a) js" where
  "ret x s = (Inr x, s)"

definition throw :: "exn \<Rightarrow> ('s, 'a) js" where
  "throw e s = (Inl e, s)"

definition andThen :: "('s, 'a) js \<Rightarrow> ('a \<Rightarrow> ('s, 'b) js) \<Rightarrow> ('s, 'b) js" where
  "andThen m k s = (case m s of (Inl e, s') \<Rightarrow> (Inl e, s') | (Inr x, s') \<Rightarrow> k x s')"

definition tryCatch :: "('s, 'a) js \<Rightarrow> (exn \<Rightarrow> ('s, 'a) js) \<Rightarrow> ('s, 'a) js" where
  "tryCatch m h s = (case m s of (Inl e, s') \<Rightarrow> h e s' | (Inr x, s') \<Rightarrow> (Inr x, s'))"

text \<open>
  \<open>Promise.all(xs.map(async x => ...))\<close>. \<open>map\<close> calls the callback on every element before
  anything is awaited, so every callback runs, and takes its requests, whether or not
  another one rejects; the requests are taken in the order of the list. The promise
  resolves with the results in order when every callback resolves, and rejects otherwise
  (here with the exception of the first callback, in the order of the list, that rejects).
\<close>

fun awaitAll :: "('a \<Rightarrow> ('s, 'b) js) \<Rightarrow> 'a list \<Rightarrow> ('s, 'b list) js" where
  "awaitAll f [] s = (Inr [], s)"
| "awaitAll f (x # xs) s =
     (case f x s of (r, s1) \<Rightarrow>
        (case awaitAll f xs s1 of (rs, s2) \<Rightarrow>
           (case r of
              Inl e \<Rightarrow> (Inl e, s2)
            | Inr y \<Rightarrow> (case rs of Inl e \<Rightarrow> (Inl e, s2) | Inr ys \<Rightarrow> (Inr (y # ys), s2)))))"

subsection \<open>The platform: network, clock and built-ins\<close>

text \<open>
  What a response holds of the JSON document it carries, typed as the code reads it:
  the entities of a Wikidata document, the first page of \<open>query.pages\<close> in the order of
  \<open>Object.keys\<close>, and the titles of \<open>query.search\<close>. A part that is missing is \<open>None\<close>.
\<close>

record wikiPage =
  pageExtract :: "jsstring option"
  thumbnail :: "jsstring option"
  images :: "jsstring list option"
  imageinfo :: "jsstring option"

datatype datavalue = StringValue jsstring | ObjectValue

record entity =
  claims :: "(jsstring \<times> datavalue option list) list option"

record body =
  entities :: "(jsstring \<times> entity) list option"
  pages :: "(jsstring \<times> wikiPage) option option"
  search :: "jsstring list option"

record response =
  ok :: bool
  statusText :: jsstring
  json :: "body option"

text \<open>
  The outside world has a state of its own, of type \<open>'n\<close>. \<open>fetch\<close> answers a request with
  a response, or with \<open>None\<close> when the promise rejects; \<open>clock\<close> is \<open>new Date()\<close>, in
  milliseconds since the epoch. \<open>parseDate\<close> is the time value of \<open>new Date(string)\<close>, \<open>None\<close>
  for an invalid date. \<open>previousDay\<close> is \<open>setDate(getDate() - 1)\<close>: the same local time on
  the calendar day before. \<open>percentEncode\<close> is \<open>encodeURIComponent\<close> on a well-formed string,
  \<open>coordinateText\<close> the text of \<open>coordinates?.[i]\<close> in a template literal.
\<close>

record 'n platform =
  fetch :: "jsstring \<Rightarrow> 'n \<Rightarrow> response option \<times> 'n"
  clock :: "'n \<Rightarrow> int \<times> 'n"
  parseDate :: "jsstring \<Rightarrow> int option"
  previousDay :: "int \<Rightarrow> int"
  toISOString :: "int \<Rightarrow> jsstring"
  percentEncode :: "jsstring \<Rightarrow> jsstring"
  coordinateText :: "geometry \<Rightarrow> nat \<Rightarrow> jsstring"

definition fetchUrl :: "'n platform \<Rightarrow> jsstring \<Rightarrow> ('n, response) js" where
  "fetchUrl p url n =
     (case fetch p url n of (None, n') \<Rightarrow> (Inl NetworkError, n') | (Some r, n') \<Rightarrow> (Inr r, n'))"

definition responseJson :: "response \<Rightarrow> ('n, body) js" where
  "responseJson r = (case json r of None \<Rightarrow> throw SyntaxError | Some b \<Rightarrow> ret b)"

text \<open>
  \<open>encodeURIComponent\<close> throws a \<open>URIError\<close> on a string with a lone surrogate.
\<close>

definition isHighSurrogate :: "jschar \<Rightarrow> bool" where
  "isHighSurrogate c = (0xD800 \<le> c \<and> c \<le> 0xDBFF)"

definition isLowSurrogate :: "jschar \<Rightarrow> bool" where
  "isLowSurrogate c = (0xDC00 \<le> c \<and> c \<le> 0xDFFF)"

fun wellFormed :: "jsstring \<Rightarrow> bool" where
  "wellFormed [] = True"
| "wellFormed [c] = (\<not> isHighSurrogate c \<and> \<not> isLowSurrogate c)"
| "wellFormed (c # d # s) =
     (if isHighSurrogate c then isLowSurrogate d \<and> wellFormed s
      else \<not> isLowSurrogate c \<and> wellFormed (d # s))"

definition encodeURIComponent :: "'n platform \<Rightarrow> jsstring \<Rightarrow> ('n, jsstring) js" where
  "encodeURIComponent p s = (if wellFormed s then ret (percentEncode p s) else throw URIError)"

text \<open>\<open>s.replace(pattern, replacement)\<close> with a string pattern: the first occurrence.\<close>

fun replaceFirst :: "jsstring \<Rightarrow> jsstring \<Rightarrow> jsstring \<Rightarrow> jsstring" where
  "replaceFirst pat rep [] = (if pat = [] then rep else [])"
| "replaceFirst pat rep (c # s) =
     (if prefix pat (c # s) then rep @ drop (length pat) (c # s)
      else c # replaceFirst pat rep s)"

text \<open>\<open>s.split(':')[0]\<close> and \<open>s.split(':').slice(1).join(':')\<close>: before and after the first colon.\<close>

definition beforeColon :: "jsstring \<Rightarrow> jsstring" where
  "beforeColon s = takeWhile (\<lambda>c. c \<noteq> 0x3A) s"

definition afterColon :: "jsstring \<Rightarrow> jsstring" where
  "afterColon s = (case dropWhile (\<lambda>c. c \<noteq> 0x3A) s of [] \<Rightarrow> [] | c # r \<Rightarrow> r)"

subsection \<open>The lookups\<close>

definition emptyBody :: body where
  "emptyBody = \<lparr>entities = None, pages = None, search = None\<rparr>"

text \<open>The callback of \<open>data.query.search.slice(0, 5).map\<close> in \<open>searchWikimediaCommons\<close>.\<close>

definition commonsImageUrl :: "'n platform \<Rightarrow> jsstring \<Rightarrow> ('n, jsstring option) js" where
  "commonsImageUrl p title =
     (let filename = replaceFirst (ustr ''File:'') [] title in
      andThen (encodeURIComponent p filename) (\<lambda>encoded.
        let imageInfoUrl =
              ustr ''https://commons.wikimedia.org/w/api.php?action=query&titles=File:'' @ encoded
              @ ustr ''&prop=imageinfo&iiprop=url&format=json&origin=*''
        in tryCatch
             (andThen (fetchUrl p imageInfoUrl) (\<lambda>imageInfoResp.
              andThen (responseJson imageInfoResp) (\<lambda>imageData.
                case pages imageData of
                  Some (Some (pageId, pg)) \<Rightarrow>
                    if pageId \<noteq> [] \<and> pageId \<noteq> ustr ''-1'' \<and> truthy (imageinfo pg)
                    then ret (imageinfo pg) else ret None
                | _ \<Rightarrow> ret None)))
             (\<lambda>e. ret None)))"

definition searchWikimediaCommons :: "'n platform \<Rightarrow> jsstring \<Rightarrow> ('n, jsstring list) js" where
  "searchWikimediaCommons p searchTerm =
     tryCatch
       (andThen (encodeURIComponent p (searchTerm @ ustr '' fortification'')) (\<lambda>encoded.
          let url = ustr ''https://commons.wikimedia.org/w/api.php?action=query&list=search&srsearch=''
                    @ encoded @ ustr ''&srnamespace=6&srlimit=5&format=json&origin=*''
          in andThen (fetchUrl p url) (\<lambda>response.
               if \<not> ok response then ret []
               else andThen (responseJson response) (\<lambda>data.
                 case search data of
                   None \<Rightarrow> ret []
                 | Some items \<Rightarrow>
                     andThen (awaitAll (commonsImageUrl p) (take 5 items)) (\<lambda>imageUrls.
                       ret (concat (map (\<lambda>url. case url of None \<Rightarrow> [] | Some u \<Rightarrow> [u]) imageUrls)))))))
       (\<lambda>err. ret [])"

definition fallbackImages :: "jsstring list" where
  "fallbackImages =
     [ustr ''https://upload.wikimedia.org/wikipedia/commons/thumb/2/2c/Chateau_de_Bonaguil_vu_du_ciel.jpg/800px-Chateau_de_Bonaguil_vu_du_ciel.jpg'',
      ustr ''https://upload.wikimedia.org/wikipedia/commons/thumb/e/e6/Maginot_Line_Fort_Hackenberg.jpg/800px-Maginot_Line_Fort_Hackenberg.jpg'',
      ustr ''https://upload.wikimedia.org/wikipedia/commons/thumb/3/3b/Fort_Boyard_Charente_Maritime.jpg/800px-Fort_Boyard_Charente_Maritime.jpg'',
      ustr ''https://upload.wikimedia.org/wikipedia/commons/thumb/9/9e/Tour_Vauban_de_Camaret.jpg/800px-Tour_Vauban_de_Camaret.jpg'',
      ustr ''https://upload.wikimedia.org/wikipedia/commons/thumb/b/b1/Fortifications_Vauban_Brian'' @ [0xE7]
        @ ustr ''on.jpg/800px-Fortifications_Vauban_Brian'' @ [0xE7] @ ustr ''on.jpg'']"

definition fetchGoogleImages :: "'n platform \<Rightarrow> jsstring \<Rightarrow> ('n, jsstring list) js" where
  "fetchGoogleImages p searchTerm =
     tryCatch
       (andThen (searchWikimediaCommons p searchTerm) (\<lambda>wikimediaImages.
          if length wikimediaImages > 0 then ret wikimediaImages else ret fallbackImages))
       (\<lambda>err. ret [])"

definition fetchWikipediaData :: "'n platform \<Rightarrow> jsstring \<Rightarrow> ('n, body) js" where
  "fetchWikipediaData p title =
     tryCatch
       (andThen (encodeURIComponent p title) (\<lambda>encoded.
        andThen (fetchUrl p (ustr ''https://en.wikipedia.org/api/rest_v1/page/summary/'' @ encoded))
          (\<lambda>response.
             if \<not> ok response then throw (Error (ustr ''Wikipedia API error: '' @ statusText response))
             else responseJson response)))
       (\<lambda>err. ret emptyBody)"

definition fetchWikidataData :: "'n platform \<Rightarrow> jsstring \<Rightarrow> ('n, body) js" where
  "fetchWikidataData p wikidataId =
     tryCatch
       (andThen (fetchUrl p (ustr ''https://www.wikidata.org/wiki/Special:EntityData/'' @ wikidataId
                             @ ustr ''.json''))
          (\<lambda>response.
             if \<not> ok response then throw (Error (ustr ''Wikidata API error: '' @ statusText response))
             else responseJson response))
       (\<lambda>err. ret emptyBody)"

text \<open>The filter on image names and the callback of \<open>imageNames.slice(0, 5).map\<close>.\<close>

definition isPhotoName :: "jsstring \<Rightarrow> bool" where
  "isPhotoName title =
     (\<not> includesStr title (ustr ''Icon'') \<and> \<not> includesStr title (ustr ''Logo'')
      \<and> \<not> includesStr title (ustr ''Pictogram'')
      \<and> (includesStr title (ustr ''.jpg'') \<or> includesStr title (ustr ''.png'')
          \<or> includesStr title (ustr ''.jpeg'')))"

definition wikipediaImageUrl :: "'n platform \<Rightarrow> jsstring \<Rightarrow> ('n, jsstring option) js" where
  "wikipediaImageUrl p title =
     andThen (encodeURIComponent p title) (\<lambda>encoded.
       let imgUrl = ustr ''https://en.wikipedia.org/w/api.php?action=query&titles='' @ encoded
                    @ ustr ''&prop=imageinfo&iiprop=url&format=json&origin=*''
       in andThen (fetchUrl p imgUrl) (\<lambda>imgResponse.
          andThen (responseJson imgResponse) (\<lambda>imgData.
            case pages imgData of
              Some (Some (imgPageId, pg)) \<Rightarrow>
                if imgPageId = [] \<or> \<not> truthy (imageinfo pg) then ret None else ret (imageinfo pg)
            | _ \<Rightarrow> ret None)))"

definition fetchWikipediaImages :: "'n platform \<Rightarrow> jsstring \<Rightarrow> ('n, jsstring list) js" where
  "fetchWikipediaImages p title =
     tryCatch
       (andThen (encodeURIComponent p title) (\<lambda>encoded.
          let url = ustr ''https://en.wikipedia.org/w/api.php?action=query&titles='' @ encoded
                    @ ustr ''&prop=images&format=json&origin=*''
          in andThen (fetchUrl p url) (\<lambda>response.
               if \<not> ok response
               then throw (Error (ustr ''Wikipedia images API error: '' @ statusText response))
               else andThen (responseJson response) (\<lambda>data.
                 case pages data of
                   Some (Some (pageId, pg)) \<Rightarrow>
                     (case images pg of
                        None \<Rightarrow> ret []
                      | Some titles \<Rightarrow>
                          if pageId = [] then ret []
                          else (let imageNames = filter isPhotoName titles in
                                if length imageNames = 0 then ret []
                                else andThen (awaitAll (wikipediaImageUrl p) (take 5 imageNames))
                                       (\<lambda>imageUrls. ret (concat (map (\<lambda>url. case url of None \<Rightarrow> []
                                                                        | Some u \<Rightarrow> [u]) imageUrls)))))
                 | _ \<Rightarrow> ret []))))
       (\<lambda>err. ret [])"

subsection \<open>The store and the hook\<close>

text \<open>
  Features and property bags are objects: the store maps addresses to them, and a
  feature holds the address of its bag. \<open>loading\<close> and \<open>error\<close> are the state of the hook.
\<close>

record 'n world =
  outside :: 'n
  featureAt :: "nat \<Rightarrow> nat feature"
  bagAt :: "nat \<Rightarrow> property_bag"
  nextFeature :: nat
  loading :: bool
  error :: "exn option"

definition onOutside :: "('n, 'a) js \<Rightarrow> ('n world, 'a) js" where
  "onOutside m w = (case m (outside w) of (r, n') \<Rightarrow> (r, w\<lparr>outside := n'\<rparr>))"

definition setLoading :: "bool \<Rightarrow> ('n world, unit) js" where
  "setLoading b w = (Inr (), w\<lparr>loading := b\<rparr>)"

definition setError :: "exn option \<Rightarrow> ('n world, unit) js" where
  "setError e w = (Inr (), w\<lparr>error := e\<rparr>)"

text \<open>\<open>{ ...fort }\<close>: a new feature object with the fields of \<open>fort\<close>.\<close>

definition spreadCopy :: "nat \<Rightarrow> ('n world, nat) js" where
  "spreadCopy fort w =
     (Inr (nextFeature w),
      w\<lparr>featureAt := (featureAt w)(nextFeature w := featureAt w fort),
        nextFeature := Suc (nextFeature w)\<rparr>)"

text \<open>
  Reading a feature object, reading the bag at an address, and writing through a feature
  object to its bag.
\<close>

definition readFeature :: "nat \<Rightarrow> ('n world, nat feature) js" where
  "readFeature f w = (Inr (featureAt w f), w)"

definition readBag :: "nat \<Rightarrow> ('n world, property_bag) js" where
  "readBag a w = (Inr (bagAt w a), w)"

definition modifyBag :: "nat \<Rightarrow> (property_bag \<Rightarrow> property_bag) \<Rightarrow> ('n world, unit) js" where
  "modifyBag f g w =
     (Inr (), w\<lparr>bagAt := (bagAt w)(properties (featureAt w f) := g (bagAt w (properties (featureAt w f))))\<rparr>)"

subsection \<open>enrichFortification\<close>

text \<open>
  The test on \<open>lastFetched\<close>. The clock is read only when the property is truthy.
  In the steps, \<open>props\<close> is the address held by the local \<open>properties\<close> of the source.
\<close>

definition recentlyFetched :: "'n platform \<Rightarrow> nat \<Rightarrow> ('n world, bool) js" where
  "recentlyFetched p props =
     andThen (readBag props) (\<lambda>bag.
       case getProp bag ''lastFetched'' of
         None \<Rightarrow> ret False
       | Some s \<Rightarrow>
           if s = [] then ret False
           else andThen (onOutside (\<lambda>n. case clock p n of (t, n') \<Rightarrow> (Inr t, n'))) (\<lambda>today.
                  case parseDate p s of
                    None \<Rightarrow> ret False
                  | Some lastFetched \<Rightarrow> ret (lastFetched > previousDay p today)))"

definition searchTermOf :: "'n platform \<Rightarrow> nat feature \<Rightarrow> property_bag \<Rightarrow> jsstring" where
  "searchTermOf p fort bag =
     orString (orElse (getProp bag ''name'')
              (orElse (map_option afterColon (getProp bag ''wikipedia''))
              (orElse (getProp bag ''denomination'') (getProp bag ''chpnom''))))
       (ustr ''Fortification at '' @ coordinateText p (geometry fort) 1 @ ustr '', ''
        @ coordinateText p (geometry fort) 0)"

definition imageStep :: "'n platform \<Rightarrow> nat \<Rightarrow> nat \<Rightarrow> nat \<Rightarrow> ('n world, unit) js" where
  "imageStep p fort props fortCopy =
     andThen (readBag props) (\<lambda>bag.
     andThen (readFeature fort) (\<lambda>fortObject.
       let searchTerm = searchTermOf p fortObject bag in
       tryCatch
         (andThen (onOutside (fetchGoogleImages p searchTerm)) (\<lambda>googleImages.
            if length googleImages > 0
            then modifyBag fortCopy
                   (\<lambda>b. setProp ''imageSource'' (ustr ''google'') (b\<lparr>imageUrls := Some googleImages\<rparr>))
            else ret ()))
         (\<lambda>imgErr. ret ())))"

text \<open>The first claim of a property of an entity, as a string, when it has a truthy value.\<close>

definition truthyValue :: "datavalue option \<Rightarrow> bool" where
  "truthyValue v = (case v of None \<Rightarrow> False | Some (StringValue s) \<Rightarrow> s \<noteq> [] | Some ObjectValue \<Rightarrow> True)"

definition String :: "datavalue \<Rightarrow> jsstring" where
  "String v = (case v of StringValue s \<Rightarrow> s | ObjectValue \<Rightarrow> ustr ''[object Object]'')"

definition firstClaim :: "entity \<Rightarrow> string \<Rightarrow> jsstring option" where
  "firstClaim e k =
     (case claims e of
        None \<Rightarrow> None
      | Some cs \<Rightarrow>
          (case map_of cs (ustr k) of
             None \<Rightarrow> None
           | Some [] \<Rightarrow> None
           | Some (c # rest) \<Rightarrow> if truthyValue c then map_option String c else None))"

definition wikidataStep :: "'n platform \<Rightarrow> nat \<Rightarrow> nat \<Rightarrow> ('n world, unit) js" where
  "wikidataStep p props fortCopy =
     andThen (readBag props) (\<lambda>bag.
       case getProp bag ''wikidata'' of
         None \<Rightarrow> ret ()
       | Some wikidata \<Rightarrow>
           if wikidata = [] then ret ()
           else andThen (onOutside (fetchWikidataData p wikidata)) (\<lambda>wikidataResponse.
             case entities wikidataResponse of
               None \<Rightarrow> ret ()
             | Some es \<Rightarrow>
                 (case map_of es wikidata of
                    None \<Rightarrow> ret ()
                  | Some entity \<Rightarrow>
                      andThen (case firstClaim entity ''P2348'' of
                                 None \<Rightarrow> ret ()
                               | Some v \<Rightarrow> modifyBag fortCopy (setProp ''period'' v)) (\<lambda>u.
                               case firstClaim entity ''P149'' of
                                 None \<Rightarrow> ret ()
                               | Some v \<Rightarrow> modifyBag fortCopy (setProp ''constructionStyle'' v)))))"

definition wikipediaStep :: "'n platform \<Rightarrow> nat \<Rightarrow> nat \<Rightarrow> ('n world, unit) js" where
  "wikipediaStep p props fortCopy =
     andThen (readBag props) (\<lambda>bag.
       case getProp bag ''wikipedia'' of
         None \<Rightarrow> ret ()
       | Some wikipedia \<Rightarrow>
           if wikipedia = [] then ret ()
           else
             (let wikipediaTitle = afterColon wikipedia in
              andThen (onOutside (fetchWikipediaData p wikipediaTitle)) (\<lambda>wikipediaResponse.
              andThen (case pages wikipediaResponse of
                         Some (Some (pageId, pg)) \<Rightarrow>
                           andThen (case pageExtract pg of
                                      None \<Rightarrow> ret ()
                                    | Some e \<Rightarrow> if e \<noteq> [] then modifyBag fortCopy (setProp ''description'' e)
                                               else ret ()) (\<lambda>u.
                                    case thumbnail pg of
                                      None \<Rightarrow> ret ()
                                    | Some src \<Rightarrow>
                                        if src \<noteq> [] then
                                          modifyBag fortCopy (\<lambda>b.
                                            setProp ''imageSource'' (ustr ''wikipedia'')
                                              (b\<lparr>imageUrls :=
                                                   Some ((case imageUrls b of None \<Rightarrow> [] | Some l \<Rightarrow> l) @ [src])\<rparr>))
                                        else ret ())
                       | _ \<Rightarrow> ret ()) (\<lambda>u.
              andThen (onOutside (fetchWikipediaImages p wikipediaTitle)) (\<lambda>imgs.
              andThen (if length imgs > 0
                       then modifyBag fortCopy
                              (\<lambda>b. setProp ''imageSource'' (ustr ''wikipedia'') (b\<lparr>imageUrls := Some imgs\<rparr>))
                       else ret ()) (\<lambda>u.
              andThen (onOutside (encodeURIComponent p wikipediaTitle)) (\<lambda>encoded.
                let lang = beforeColon wikipedia;
                    wikipediaUrl = ustr ''https://'' @ lang @ ustr ''.wikipedia.org/wiki/'' @ encoded
                in modifyBag fortCopy (\<lambda>b.
                     b\<lparr>externalLinks :=
                         Some ((case externalLinks b of None \<Rightarrow> [] | Some l \<Rightarrow> l)
                               @ [(ustr ''Wikipedia'', wikipediaUrl)])\<rparr>))))))))"

definition stampStep :: "'n platform \<Rightarrow> nat \<Rightarrow> ('n world, unit) js" where
  "stampStep p fortCopy =
     andThen (onOutside (\<lambda>n. case clock p n of (t, n') \<Rightarrow> (Inr t, n'))) (\<lambda>today.
       modifyBag fortCopy (setProp ''lastFetched'' (toISOString p today)))"

text \<open>The body of the outer \<open>try\<close>.\<close>

definition enrichBody :: "'n platform \<Rightarrow> nat \<Rightarrow> ('n world, nat) js" where
  "enrichBody p fort =
     andThen (setLoading True) (\<lambda>u.
     andThen (setError None) (\<lambda>u.
     andThen (readFeature fort) (\<lambda>fortObject.
       let props = properties fortObject in
       andThen (spreadCopy fort) (\<lambda>fortCopy.
       andThen (recentlyFetched p props) (\<lambda>recent.
         if recent then ret fortCopy
         else andThen (imageStep p fort props fortCopy) (\<lambda>u.
              andThen (wikidataStep p props fortCopy) (\<lambda>u.
              andThen (wikipediaStep p props fortCopy) (\<lambda>u.
              andThen (stampStep p fortCopy) (\<lambda>u.
              ret fortCopy)))))))))"

text \<open>
  The function: the promise it returns always resolves. On an exception of the body it
  resolves with \<open>fort\<close>, the object it was given.
\<close>

definition enrichFortification :: "'n platform \<Rightarrow> nat \<Rightarrow> 'n world \<Rightarrow> nat \<times> 'n world" where
  "enrichFortification p fort w =
     (case enrichBody p fort w of
        (Inr enriched, w') \<Rightarrow> (enriched, w'\<lparr>loading := False\<rparr>)
      | (Inl err, w') \<Rightarrow> (fort, w'\<lparr>error := Some err, loading := False\<rparr>))"

subsection \<open>The revision without the image search\<close>

text \<open>
  \<open>enrichFortification\<close> as it is in \<open>src/hooks/useExternalData.ts\<close>: there is no image
  step, the Wikipedia step adds the thumbnail and the images to the list that is there and
  does not write \<open>imageSource\<close>. The test on \<open>lastFetched\<close>, the copy, the Wikidata step,
  the stamp and the outer \<open>catch\<close> are the same.
\<close>

definition wikipediaStepBasic :: "'n platform \<Rightarrow> nat \<Rightarrow> nat \<Rightarrow> ('n world, unit) js" where
  "wikipediaStepBasic p props fortCopy =
     andThen (readBag props) (\<lambda>bag.
       case getProp bag ''wikipedia'' of
         None \<Rightarrow> ret ()
       | Some wikipedia \<Rightarrow>
           if wikipedia = [] then ret ()
           else
             (let wikipediaTitle = afterColon wikipedia in
              andThen (onOutside (fetchWikipediaData p wikipediaTitle)) (\<lambda>wikipediaResponse.
              andThen (case pages wikipediaResponse of
                         Some (Some (pageId, pg)) \<Rightarrow>
                           andThen (case pageExtract pg of
                                      None \<Rightarrow> ret ()
                                    | Some e \<Rightarrow> if e \<noteq> [] then modifyBag fortCopy (setProp ''description'' e)
                                               else ret ()) (\<lambda>u.
                                    case thumbnail pg of
                                      None \<Rightarrow> ret ()
                                    | Some src \<Rightarrow>
                                        if src \<noteq> [] then
                                          modifyBag fortCopy (\<lambda>b.
                                            b\<lparr>imageUrls :=
                                                Some ((case imageUrls b of None \<Rightarrow> [] | Some l \<Rightarrow> l) @ [src])\<rparr>)
                                        else ret ())
                       | _ \<Rightarrow> ret ()) (\<lambda>u.
              andThen (onOutside (fetchWikipediaImages p wikipediaTitle)) (\<lambda>imgs.
              andThen (if length imgs > 0
                       then modifyBag fortCopy (\<lambda>b.
                              b\<lparr>imageUrls := Some ((case imageUrls b of None \<Rightarrow> [] | Some l \<Rightarrow> l) @ imgs)\<rparr>)
                       else ret ()) (\<lambda>u.
              andThen (onOutside (encodeURIComponent p wikipediaTitle)) (\<lambda>encoded.
                let lang = beforeColon wikipedia;
                    wikipediaUrl = ustr ''https://'' @ lang @ ustr ''.wikipedia.org/wiki/'' @ encoded
                in modifyBag fortCopy (\<lambda>b.
                     b\<lparr>externalLinks :=
                         Some ((case externalLinks b of None \<Rightarrow> [] | Some l \<Rightarrow> l)
                               @ [(ustr ''Wikipedia'', wikipediaUrl)])\<rparr>))))))))"

definition enrichBodyBasic :: "'n platform \<Rightarrow> nat \<Rightarrow> ('n world, nat) js" where
  "enrichBodyBasic p fort =
     andThen (setLoading True) (\<lambda>u.
     andThen (setError None) (\<lambda>u.
     andThen (readFeature fort) (\<lambda>fortObject.
       let props = properties fortObject in
       andThen (spreadCopy fort) (\<lambda>fortCopy.
       andThen (recentlyFetched p props) (\<lambda>recent.
         if recent then ret fortCopy
         else andThen (wikidataStep p props fortCopy) (\<lambda>u.
              andThen (wikipediaStepBasic p props fortCopy) (\<lambda>u.
              andThen (stampStep p fortCopy) (\<lambda>u.
              ret fortCopy))))))))"

definition enrichFortificationBasic :: "'n platform \<Rightarrow> nat \<Rightarrow> 'n world \<Rightarrow> nat \<times> 'n world" where
  "enrichFortificationBasic p fort w =
     (case enrichBodyBasic p fort w of
        (Inr enriched, w') \<Rightarrow> (enriched, w'\<lparr>loading := False\<rparr>)
      | (Inl err, w') \<Rightarrow> (fort, w'\<lparr>error := Some err, loading := False\<rparr>))"

text \<open>
  The test of the freshness check as a predicate: \<open>lastFetched\<close> is a non-empty string that
  parses to an instant later than \<open>previousDay\<close> of the given instant.
\<close>

definition fresh :: "'n platform \<Rightarrow> property_bag \<Rightarrow> int \<Rightarrow> bool" where
  "fresh p bag today =
     (case getProp bag ''lastFetched'' of
        None \<Rightarrow> False
      | Some s \<Rightarrow> s \<noteq> [] \<and> (case parseDate p s of None \<Rightarrow> False | Some t \<Rightarrow> previousDay p today < t))"

text \<open>
  What a step may change: the bag at one address. Features, the allocation counter, the
  hook state and every other bag stay as they are.
\<close>

definition frame :: "nat \<Rightarrow> 'n world \<Rightarrow> 'n world \<Rightarrow> bool" where
  "frame a w w' \<longleftrightarrow>
     featureAt w' = featureAt w \<and> nextFeature w' = nextFeature w \<and> loading w' = loading w
     \<and> error w' = error w \<and> (\<forall>b. b \<noteq> a \<longrightarrow> bagAt w' b = bagAt w b)"

definition keeps :: "nat \<Rightarrow> nat \<Rightarrow> ('n world, 'a) js \<Rightarrow> bool" where
  "keeps f a m \<longleftrightarrow>
     (\<forall>w r w'. properties (featureAt w f) = a \<longrightarrow> m w = (r, w') \<longrightarrow> frame a w w')"

text \<open>
  The state in which the lookups start: the hook is loading, the copy is allocated, and
  the clock has been read if \<open>lastFetched\<close> was truthy.
\<close>

definition afterCopy :: "'n platform \<Rightarrow> nat \<Rightarrow> 'n world \<Rightarrow> 'n world" where
  "afterCopy p fort w =
     (let copied = w\<lparr>loading := True, error := None,
                     featureAt := (featureAt w)(nextFeature w := featureAt w fort),
                     nextFeature := Suc (nextFeature w)\<rparr>
      in if truthy (getProp (bagAt w (properties (featureAt w fort))) ''lastFetched'')
         then copied\<lparr>outside := snd (clock p (outside w))\<rparr> else copied)"


section \<open>Concrete inputs\<close>

text \<open>
  An engine for the closed examples below. Every string in them stays within Latin-1,
  where the built-ins are fixed by the tables, so its two fields are never consulted.
\<close>

definition plainRuntime :: runtime where
  "plainRuntime = \<lparr>unicodeLower = (\<lambda>s. s), unicodeNFD = (\<lambda>s. s)\<rparr>"

definition castleNode :: element where
  "castleNode =
     \<lparr>etype = ustr ''node'', eid = 1, lat = Some (Finite 48.8), lon = Some (Finite 2.3),
      tags = Some [(ustr ''historic'', ustr ''castle''), (ustr ''name'', ustr ''Test Castle'')]\<rparr>"

definition castleFeature :: "property_bag feature" where
  "castleFeature =
     \<lparr>ftype = ustr ''Feature'', fid = Some (ustr ''1''),
      geometry = Point (Finite 2.3) (Finite 48.8),
      properties =
        \<lparr>entries = [(ustr ''historic'', ustr ''castle''), (ustr ''name'', ustr ''Test Castle''),
                    (ustr ''@id'', ustr ''node/1''), (ustr ''display_type'', ustr ''Castle'')],
         imageUrls = None, externalLinks = None\<rparr>\<rparr>"

definition castleWay :: element where
  "castleWay =
     \<lparr>etype = ustr ''way'', eid = 2, lat = None, lon = None,
      tags = Some [(ustr ''historic'', ustr ''castle''), (ustr ''name'', ustr ''Moated Castle'')]\<rparr>"

definition emptyDefenceNode :: element where
  "emptyDefenceNode =
     \<lparr>etype = ustr ''node'', eid = 3, lat = Some (Finite 48.8), lon = Some (Finite 2.3),
      tags = Some [(ustr ''defence'', [])]\<rparr>"

definition bunkerNode :: element where
  "bunkerNode =
     \<lparr>etype = ustr ''node'', eid = 4, lat = Some (Finite 50.1), lon = Some (Finite 1.8),
      tags = Some [(ustr ''military'', ustr ''Bunker'')]\<rparr>"

definition namedFeature :: "jsstring \<Rightarrow> property_bag feature" where
  "namedFeature n =
     \<lparr>ftype = ustr ''Feature'', fid = None, geometry = Point (Finite 2.3) (Finite 48.8),
      properties = \<lparr>entries = [(ustr ''name'', n)], imageUrls = None, externalLinks = None\<rparr>\<rparr>"

text \<open>A feature with the given string properties, and a bunker without name.\<close>

definition featureWith :: "(string \<times> jsstring) list \<Rightarrow> property_bag feature" where
  "featureWith kvs =
     \<lparr>ftype = ustr ''Feature'', fid = None, geometry = Point (Finite 2.3) (Finite 48.8),
      properties = \<lparr>entries = map (\<lambda>(k, v). (ustr k, v)) kvs, imageUrls = None,
                    externalLinks = None\<rparr>\<rparr>"

definition unnamedBunker :: "property_bag feature" where
  "unnamedBunker = featureWith [(''historic'', ustr ''bunker''), (''chpadrs'', ustr ''Rue du Fort'')]"

text \<open>A property that is absent or holds nothing but white space.\<close>

definition blank :: "jsstring option \<Rightarrow> bool" where
  "blank v = (case v of None \<Rightarrow> True | Some s \<Rightarrow> list_all isWhiteSpace s)"

text \<open>
  An engine without network for the examples of the enrichment. The state of the outside
  is the time; every request is rejected after one millisecond. The engine knows the
  instants of the table. Its parameter is the length, in milliseconds, of the local day
  that ends at the present instant: 86400000, or 90000000 on the day summer time ends.
\<close>

definition instants :: "(jsstring \<times> int) list" where
  "instants =
     [(ustr ''2025-10-25T10:00:00.000Z'', 1761386400000),
      (ustr ''2025-10-25T10:30:00.000Z'', 1761388200000),
      (ustr ''2025-10-26T09:00:00.000Z'', 1761469200000),
      (ustr ''2025-10-26T11:00:00.000Z'', 1761476400000),
      (ustr ''2025-10-26T11:00:00.001Z'', 1761476400001)]"

definition isoString :: "int \<Rightarrow> jsstring" where
  "isoString t = (case find (\<lambda>(s, t'). t' = t) instants of None \<Rightarrow> [] | Some (s, t') \<Rightarrow> s)"

definition offline :: "int \<Rightarrow> int platform" where
  "offline day =
     \<lparr>fetch = (\<lambda>url n. (None, n + 1)), clock = (\<lambda>n. (n, n)), parseDate = map_of instants,
      previousDay = (\<lambda>t. t - day), toISOString = isoString, percentEncode = (\<lambda>s. s),
      coordinateText = (\<lambda>g i. [])\<rparr>"

text \<open>
  A store with one feature, at address 0, whose bag is at address 0, on 26 October 2025 at
  11:00 UTC.
\<close>

definition storeWith :: "property_bag \<Rightarrow> int world" where
  "storeWith bag =
     \<lparr>outside = 1761476400000,
      featureAt = (\<lambda>a. \<lparr>ftype = ustr ''Feature'', fid = Some (ustr ''1''),
                         geometry = Point (Finite 2.3) (Finite 48.8), properties = 0\<rparr>),
      bagAt = (\<lambda>a. bag), nextFeature = 1, loading = False, error = None\<rparr>"

definition fetchedAt :: "jsstring \<Rightarrow> property_bag" where
  "fetchedAt s =
     \<lparr>entries = [(ustr ''name'', ustr ''Fort Test''), (ustr ''lastFetched'', s)],
      imageUrls = None, externalLinks = None\<rparr>"

definition loneSurrogateBag :: property_bag where
  "loneSurrogateBag =
     \<lparr>entries = [(ustr ''name'', ustr ''Fort Test''), (ustr ''wikipedia'', ustr ''en:'' @ [0xD800])],
      imageUrls = None, externalLinks = None\<rparr>"

text \<open>
  An engine on which Wikidata alone answers: the document of the entity \<open>Q1\<close> gives it the
  period \<open>medieval\<close>. Every other request is rejected.
\<close>

definition wikidataDocument :: body where
  "wikidataDocument =
     \<lparr>entities = Some [(ustr ''Q1'',
          \<lparr>claims = Some [(ustr ''P2348'', [Some (StringValue (ustr ''medieval''))])]\<rparr>)],
      pages = None, search = None\<rparr>"

definition wikidataOnline :: "int platform" where
  "wikidataOnline =
     (offline 86400000)
       \<lparr>fetch := (\<lambda>url n.
          if url = ustr ''https://www.wikidata.org/wiki/Special:EntityData/Q1.json''
          then (Some \<lparr>ok = True, statusText = ustr ''OK'', json = Some wikidataDocument\<rparr>, n + 1)
          else (None, n + 1))\<rparr>"

definition loneSurrogateEntityBag :: property_bag where
  "loneSurrogateEntityBag =
     \<lparr>entries = [(ustr ''name'', ustr ''Fort Test''), (ustr ''wikidata'', ustr ''Q1''),
                 (ustr ''wikipedia'', ustr ''en:'' @ [0xD800])],
      imageUrls = None, externalLinks = None\<rparr>"

section \<open>Notions used in the statement about the text search\<close>

text \<open>
  The words of the specification, written without the functions of the component. A
  combining diacritical mark is a code unit of the block U+0300 to U+036F. Folding a text
  is decomposing it (NFD), dropping the combining diacritical marks, lower-casing and
  trimming the white space at both ends. The name of a feature is its \<open>name\<close>, or its
  \<open>chpdeno\<close> when the \<open>name\<close> is absent or empty; its address is its \<open>chpadrs\<close>, or its
  \<open>chplieu\<close> when the \<open>chpadrs\<close> is absent or empty; each is the empty text when both
  are absent or empty.
\<close>

definition combiningMark :: "jschar \<Rightarrow> bool" where
  "combiningMark c \<longleftrightarrow> 0x0300 \<le> c \<and> c \<le> 0x036F"

definition foldedText :: "runtime \<Rightarrow> jsstring \<Rightarrow> jsstring" where
  "foldedText rt s =
     trim (toLowerCase rt (filter (\<lambda>c. \<not> combiningMark c) (normalizeNFD rt s)))"

fun firstNonEmpty :: "jsstring option list \<Rightarrow> jsstring" where
  "firstNonEmpty [] = []"
| "firstNonEmpty (None # vs) = firstNonEmpty vs"
| "firstNonEmpty (Some s # vs) = (if s = [] then firstNonEmpty vs else s)"

definition nameOrDenomination :: "property_bag feature \<Rightarrow> jsstring" where
  "nameOrDenomination fort =
     firstNonEmpty [getProp (properties fort) ''name'', getProp (properties fort) ''chpdeno'']"

definition addressOrPlace :: "property_bag feature \<Rightarrow> jsstring" where
  "addressOrPlace fort =
     firstNonEmpty [getProp (properties fort) ''chpadrs'', getProp (properties fort) ''chplieu'']"

section \<open>Notions used in the statements about the filter index\<close>

text \<open>
  The values a feature contributes to a facet: to \<open>type\<close> its \<open>chptico\<close>, else its
  \<open>historic\<close>, else the literal \<open>Unknown\<close>; to \<open>period\<close> its \<open>period\<close> and to \<open>region\<close> its
  \<open>chpreg\<close>, when that is a non-empty string. \<open>observed\<close> lists them over the features.
\<close>

definition facetOf :: "jsstring \<Rightarrow> property_bag feature \<Rightarrow> jsstring list" where
  "facetOf g fort =
     (if g = ustr ''type'' then
        [orString (orElse (getProp (properties fort) ''chptico'')
                          (getProp (properties fort) ''historic'')) (ustr ''Unknown'')]
      else if g = ustr ''period'' then
        (case getProp (properties fort) ''period'' of None \<Rightarrow> []
         | Some v \<Rightarrow> if v \<noteq> [] then [v] else [])
      else if g = ustr ''region'' then
        (case getProp (properties fort) ''chpreg'' of None \<Rightarrow> []
         | Some v \<Rightarrow> if v \<noteq> [] then [v] else [])
      else [])"

definition observed :: "jsstring \<Rightarrow> property_bag feature list \<Rightarrow> jsstring list" where
  "observed g forts = concat (map (facetOf g) forts)"

text \<open>Counting a list of values into a map, one \<open>bump\<close> per value.\<close>

definition tally :: "counts \<Rightarrow> jsstring list \<Rightarrow> counts" where
  "tally m ks = foldl (\<lambda>m k. bump k m) m ks"

text \<open>The group that the builder returns for a facet.\<close>

definition facetGroup :: "string \<Rightarrow> string \<Rightarrow> string \<Rightarrow> property_bag feature list \<Rightarrow> FilterGroup" where
  "facetGroup g n pre forts =
     \<lparr>gid = ustr g, gname = ustr n,
      options = sortByCount (toOptions pre (tally [] (observed (ustr g) forts)))\<rparr>"

section \<open>Properties of the string built-ins\<close>

lemmas normalizer_defs =
  convertOSMToGeoJSON_def toFeature_def elementProperties_def elementGeometry_def
  isFortification_def isHistoric_def isMilitary_def hasDefenceTag_def tag_def lookup_def
  mappedDisplayType_def historicDisplayType_def militaryDisplayType_def validGeometry_def
  truthy_def truthyNumber_def getProp_def setProp_def numberToString_def toLowerCase_def
  latin1Lower_def fortificationTags_def typeMapping_def ustr_def digits.simps

lemmas evaluator_defs =
  filteredFortifications_def passesFilters_def searchFilter_def normalizeText_def
  normalizeNFD_def latin1NFD_def latin1Decompositions_def removeMarks_def trim_def
  isWhiteSpace_def fortName_def fortAddress_def fortType_def orString_def orElse_def
  activeFilter_def truthy_def getProp_def lookup_def toLowerCase_def latin1Lower_def ustr_def

lemma includesStr_sublist: "includesStr s sub \<longleftrightarrow> sublist sub s"
  by (induction s) (simp_all add: sublist_Cons_right)

lemma toLowerCase_Nil: "toLowerCase rt [] = []"
  by (simp add: toLowerCase_def)

lemma fortificationTags_lower: "w \<in> set fortificationTags \<Longrightarrow> toLowerCase rt w = w"
  by (auto simp: fortificationTags_def toLowerCase_def latin1Lower_def ustr_def)

lemma fortificationTags_nonempty: "w \<in> set fortificationTags \<Longrightarrow> w \<noteq> []"
  by (auto simp: fortificationTags_def ustr_def)

lemma trim_empty_iff: "trim s = [] \<longleftrightarrow> list_all isWhiteSpace s"
proof
  assume "trim s = []"
  then have all: "\<forall>x\<in>set (dropWhile isWhiteSpace s). isWhiteSpace x"
    by (simp add: trim_def)
  have "dropWhile isWhiteSpace s = []"
  proof (rule ccontr)
    assume ne: "dropWhile isWhiteSpace s \<noteq> []"
    then have "\<not> isWhiteSpace (hd (dropWhile isWhiteSpace s))" by (rule hd_dropWhile)
    moreover have "hd (dropWhile isWhiteSpace s) \<in> set (dropWhile isWhiteSpace s)"
      using ne by simp
    ultimately show False using all by blast
  qed
  then show "list_all isWhiteSpace s" by (simp add: list_all_iff)
next
  assume "list_all isWhiteSpace s"
  then have d: "dropWhile isWhiteSpace s = []" by (simp add: list_all_iff)
  show "trim s = []" unfolding trim_def d by simp
qed

lemma normalizeText_Nil: "normalizeText rt [] = []"
  by (simp add: normalizeText_def normalizeNFD_def removeMarks_def toLowerCase_def trim_def)

text \<open>
  The decompositions of single code units, for the evaluation of examples: a code unit
  below U+00C0 is its own decomposition.
\<close>

lemma latin1NFD_plain: "c < 0xC0 \<Longrightarrow> latin1NFD c = [c]"
proof -
  assume "c < 0xC0"
  then have "c \<notin> fst ` set latin1Decompositions"
    by (auto simp: latin1Decompositions_def)
  then have "map_of latin1Decompositions c = None"
    by (simp add: map_of_eq_None_iff)
  then show ?thesis by (simp add: latin1NFD_def)
qed

lemma latin1NFD_letters:
  "latin1NFD 0xC0 = [0x41, 0x0300]" "latin1NFD 0xC9 = [0x45, 0x0301]"
  "latin1NFD 0xD6 = [0x4F, 0x0308]" "latin1NFD 0xE2 = [0x61, 0x0302]"
  "latin1NFD 0xE5 = [0x61, 0x030A]" "latin1NFD 0xE7 = [0x63, 0x0327]"
  "latin1NFD 0xE9 = [0x65, 0x0301]" "latin1NFD 0xEA = [0x65, 0x0302]"
  "latin1NFD 0xF1 = [0x6E, 0x0303]"
  by (simp_all add: latin1NFD_def latin1Decompositions_def)

lemmas search_defs =
  filteredFortifications_def passesFilters_def filteredFortifications_part_002_def
  passesFilters_part_002_def searchFilter_def normalizeText_def
  normalizeNFD_def latin1NFD_plain latin1NFD_letters removeMarks_def trim_def
  isWhiteSpace_def fortName_def fortAddress_def fortType_def orString_def orElse_def
  activeFilter_def truthy_def getProp_def lookup_def toLowerCase_def latin1Lower_def ustr_def

section \<open>The geometry normalizer\<close>

lemma output_geometry:
  "f \<in> set (convertOSMToGeoJSON rt osmData) \<Longrightarrow>
     \<exists>x y. geometry f = Point x y \<and> \<not> (x = Finite 0 \<and> y = Finite 0)"
  by (auto simp: convertOSMToGeoJSON_def validGeometry_def toFeature_def elementGeometry_def
      split: option.splits if_splits)

lemma placeholder_geometry:
  "lat e = None \<or> lon e = None \<Longrightarrow> geometry (toFeature rt e) = Point (Finite 0) (Finite 0)"
  by (auto simp: toFeature_def elementGeometry_def split: option.splits)

text \<open>
  C1. Every feature that the normalizer returns has a Point geometry whose coordinates are
  not \<open>[0, 0]\<close>. For an element without \<open>lat\<close> or without \<open>lon\<close> the feature built is the
  placeholder at \<open>[0, 0]\<close>, and it is not in the returned list.
\<close>

theorem convertOSMToGeoJSON_excludes_origin:
  "(\<forall>f\<in>set (convertOSMToGeoJSON rt osmData).
      \<exists>x y. geometry f = Point x y \<and> \<not> (x = Finite 0 \<and> y = Finite 0))
   \<and> (\<forall>e\<in>set (elements osmData). lat e = None \<or> lon e = None \<longrightarrow>
         geometry (toFeature rt e) = Point (Finite 0) (Finite 0)
         \<and> toFeature rt e \<notin> set (convertOSMToGeoJSON rt osmData))"
proof (intro conjI ballI impI)
  fix f assume "f \<in> set (convertOSMToGeoJSON rt osmData)"
  then show "\<exists>x y. geometry f = Point x y \<and> \<not> (x = Finite 0 \<and> y = Finite 0)"
    by (rule output_geometry)
next
  fix e :: element assume "lat e = None \<or> lon e = None"
  then show "geometry (toFeature rt e) = Point (Finite 0) (Finite 0)"
    by (rule placeholder_geometry)
next
  fix e :: element assume "lat e = None \<or> lon e = None"
  then have "geometry (toFeature rt e) = Point (Finite 0) (Finite 0)"
    by (rule placeholder_geometry)
  then show "toFeature rt e \<notin> set (convertOSMToGeoJSON rt osmData)"
    using output_geometry [of "toFeature rt e" rt osmData] by auto
qed

lemma convert_way_and_node:
  "convertOSMToGeoJSON plainRuntime \<lparr>elements = [castleWay, castleNode]\<rparr> = [castleFeature]"
  by (simp add: castleWay_def castleNode_def castleFeature_def normalizer_defs)

theorem convertOSMToGeoJSON_excludes_origin_witness:
  "castleWay \<in> set (elements \<lparr>elements = [castleWay, castleNode]\<rparr>)
   \<and> lat castleWay = None
   \<and> isFortification plainRuntime castleWay
   \<and> toFeature plainRuntime castleWay
        \<notin> set (convertOSMToGeoJSON plainRuntime \<lparr>elements = [castleWay, castleNode]\<rparr>)
   \<and> castleFeature \<in> set (convertOSMToGeoJSON plainRuntime \<lparr>elements = [castleWay, castleNode]\<rparr>)
   \<and> geometry castleFeature = Point (Finite 2.3) (Finite 48.8)"
proof -
  have way: "lat castleWay = None" by (simp add: castleWay_def)
  have fort: "isFortification plainRuntime castleWay"
    by (simp add: castleWay_def normalizer_defs)
  have "toFeature plainRuntime castleWay
          \<notin> set (convertOSMToGeoJSON plainRuntime \<lparr>elements = [castleWay, castleNode]\<rparr>)"
    using convertOSMToGeoJSON_excludes_origin
            [of plainRuntime "\<lparr>elements = [castleWay, castleNode]\<rparr>"] way
    by simp
  then show ?thesis
    using way fort by (simp add: convert_way_and_node) (simp add: castleFeature_def)
qed

text \<open>
  C2. The one-element input with the node \<open>1\<close> at latitude 48.8 and longitude 2.3, tagged
  \<open>historic=castle\<close> and \<open>name=Test Castle\<close>, is normalized to exactly one feature: its id
  is \<open>"1"\<close>, its geometry the Point \<open>[2.3, 48.8]\<close> (longitude first), and its property bag
  holds the two tags, \<open>@id = "node/1"\<close> and \<open>display_type = "Castle"\<close>. This holds on every
  engine.
\<close>

theorem convertOSMToGeoJSON_test_castle:
  "convertOSMToGeoJSON rt \<lparr>elements = [castleNode]\<rparr> = [castleFeature]"
  by (simp add: castleNode_def castleFeature_def normalizer_defs)

section \<open>The tag filter of the normalizer\<close>

lemma isHistoric_iff:
  "isHistoric rt e \<longleftrightarrow>
     (\<exists>h. tag e ''historic'' = Some h
          \<and> (\<exists>w. w \<in> set fortificationTags \<and> sublist w (toLowerCase rt h)))"
proof (cases "tag e ''historic''")
  case None
  then show ?thesis by (simp add: isHistoric_def)
next
  case (Some h)
  show ?thesis
  proof (cases "h = []")
    case True
    with Some show ?thesis
      by (auto simp: isHistoric_def toLowerCase_Nil dest: fortificationTags_nonempty)
  next
    case False
    with Some show ?thesis
      by (auto simp: isHistoric_def list_ex_iff includesStr_sublist fortificationTags_lower)
  qed
qed

lemma isMilitary_iff:
  "isMilitary rt e \<longleftrightarrow>
     (\<exists>m. tag e ''military'' = Some m
          \<and> (toLowerCase rt m = ustr ''bunker'' \<or> toLowerCase rt m = ustr ''fortress''))"
  by (cases "tag e ''military''") (auto simp: isMilitary_def toLowerCase_Nil ustr_def)

text \<open>
  C3, as the code has it. The tag filter keeps an element if and only if the element has a
  tag mapping and (i) the lower-cased value of its \<open>historic\<close> tag contains one of the twelve
  words, or (ii) the lower-cased value of its \<open>military\<close> tag is \<open>bunker\<close> or \<open>fortress\<close>, or
  (iii) its \<open>defence\<close> or its \<open>defense\<close> tag has a value that is not the empty string. The
  normalizer returns the features of the elements that the tag filter keeps and whose
  geometry is not the placeholder.
\<close>

theorem isFortification_iff:
  "(isFortification rt e \<longleftrightarrow>
     tags e \<noteq> None \<and>
     ((\<exists>h. tag e ''historic'' = Some h
           \<and> (\<exists>w. w \<in> set fortificationTags \<and> sublist w (toLowerCase rt h)))
      \<or> (\<exists>m. tag e ''military'' = Some m
           \<and> (toLowerCase rt m = ustr ''bunker'' \<or> toLowerCase rt m = ustr ''fortress''))
      \<or> (\<exists>v. tag e ''defence'' = Some v \<and> v \<noteq> [])
      \<or> (\<exists>v. tag e ''defense'' = Some v \<and> v \<noteq> [])))
   \<and> convertOSMToGeoJSON rt osmData =
       map (toFeature rt)
         (filter (\<lambda>e. isFortification rt e \<and> validGeometry (toFeature rt e)) (elements osmData))"
proof
  show "isFortification rt e \<longleftrightarrow>
     tags e \<noteq> None \<and>
     ((\<exists>h. tag e ''historic'' = Some h
           \<and> (\<exists>w. w \<in> set fortificationTags \<and> sublist w (toLowerCase rt h)))
      \<or> (\<exists>m. tag e ''military'' = Some m
           \<and> (toLowerCase rt m = ustr ''bunker'' \<or> toLowerCase rt m = ustr ''fortress''))
      \<or> (\<exists>v. tag e ''defence'' = Some v \<and> v \<noteq> [])
      \<or> (\<exists>v. tag e ''defense'' = Some v \<and> v \<noteq> []))"
    unfolding isFortification_def isHistoric_iff isMilitary_iff hasDefenceTag_def truthy_def
    by (auto split: option.splits)
  show "convertOSMToGeoJSON rt osmData =
       map (toFeature rt)
         (filter (\<lambda>e. isFortification rt e \<and> validGeometry (toFeature rt e)) (elements osmData))"
    by (simp add: convertOSMToGeoJSON_def filter_map comp_def)
qed

theorem isFortification_iff_witness:
  "isFortification plainRuntime bunkerNode
   \<and> tag bunkerNode ''military'' = Some (ustr ''Bunker'')
   \<and> toLowerCase plainRuntime (ustr ''Bunker'') = ustr ''bunker''
   \<and> \<not> isFortification plainRuntime emptyDefenceNode"
proof -
  have m: "tag bunkerNode ''military'' = Some (ustr ''Bunker'')"
    by (simp add: bunkerNode_def tag_def lookup_def ustr_def)
  have l: "toLowerCase plainRuntime (ustr ''Bunker'') = ustr ''bunker''"
    by (simp add: toLowerCase_def latin1Lower_def ustr_def)
  have t: "tags bunkerNode \<noteq> None" by (simp add: bunkerNode_def)
  have yes: "isFortification plainRuntime bunkerNode"
    using isFortification_iff [of plainRuntime bunkerNode] m l t by blast
  have "tag emptyDefenceNode ''historic'' = None" "tag emptyDefenceNode ''military'' = None"
    "tag emptyDefenceNode ''defence'' = Some []" "tag emptyDefenceNode ''defense'' = None"
    by (simp_all add: emptyDefenceNode_def tag_def lookup_def ustr_def)
  then have no: "\<not> isFortification plainRuntime emptyDefenceNode"
    using isFortification_iff [of plainRuntime emptyDefenceNode] by simp
  show ?thesis using yes m l no by simp
qed

text \<open>
  The claim as stated fails on a node whose \<open>defence\<close> tag is the empty string: it has a tag
  mapping and a \<open>defence\<close> key, and the filter drops it.
\<close>

theorem defence_key_counterexample:
  "tags emptyDefenceNode \<noteq> None
   \<and> tag emptyDefenceNode ''defence'' = Some []
   \<and> \<not> isFortification plainRuntime emptyDefenceNode
   \<and> convertOSMToGeoJSON plainRuntime \<lparr>elements = [emptyDefenceNode]\<rparr> = []"
  by (simp add: emptyDefenceNode_def normalizer_defs)

section \<open>The search and filter evaluator\<close>

lemma blank_fortName:
  "blank (getProp (properties fort) ''name'') \<Longrightarrow> blank (getProp (properties fort) ''chpdeno'')
   \<Longrightarrow> trim (fortName fort) = []"
  by (auto simp: fortName_def orString_def orElse_def truthy_def blank_def trim_empty_iff
      split: option.splits)

text \<open>
  C4, as the code has it. With the \<open>type\<close> facet set to a non-empty value \<open>v\<close>, no other
  facet and an empty search term, the evaluator keeps exactly the named features whose
  type is \<open>v\<close>, where the type of a feature is its \<open>chptico\<close> property when that is a
  non-empty string and its \<open>historic\<close> property otherwise. The properties \<open>display_type\<close>,
  \<open>building\<close> and \<open>military\<close> play no part.
\<close>

theorem type_filter_exact:
  assumes "v \<noteq> []"
  shows "filteredFortifications rt fortifications [(ustr ''type'', Some v)] [] =
     filter (\<lambda>fort. trim (fortName fort) \<noteq> [] \<and>
        (if truthy (getProp (properties fort) ''chptico'')
         then getProp (properties fort) ''chptico''
         else getProp (properties fort) ''historic'') = Some v) fortifications"
proof -
  have "passesFilters rt [(ustr ''type'', Some v)] [] =
          (\<lambda>fort. trim (fortName fort) \<noteq> [] \<and>
             (if truthy (getProp (properties fort) ''chptico'')
              then getProp (properties fort) ''chptico''
              else getProp (properties fort) ''historic'') = Some v)"
    using assms
    by (intro ext)
       (auto simp: passesFilters_def searchFilter_def activeFilter_def truthy_def fortType_def
          orElse_def ustr_def)
  then show ?thesis by (simp add: filteredFortifications_def)
qed

theorem type_filter_exact_witness:
  "filteredFortifications plainRuntime [castleFeature, namedFeature (ustr ''Fort Boyard'')]
      [(ustr ''type'', Some (ustr ''castle''))] [] = [castleFeature]"
proof -
  have ne: "ustr ''castle'' \<noteq> []" by (simp add: ustr_def)
  show ?thesis
    unfolding type_filter_exact [OF ne]
    by (simp add: castleFeature_def namedFeature_def evaluator_defs)
qed

text \<open>
  The claim as stated fails on the feature that the normalizer builds for the castle node:
  its \<open>display_type\<close> is \<open>"Castle"\<close> and it is named, and the filter \<open>{type: "Castle"}\<close> with
  an empty search term drops it, since its \<open>historic\<close> property is \<open>"castle"\<close>.
\<close>

theorem display_type_counterexample:
  "getProp (properties castleFeature) ''display_type'' = Some (ustr ''Castle'')
   \<and> trim (fortName castleFeature) \<noteq> []
   \<and> filteredFortifications plainRuntime [castleFeature] [(ustr ''type'', Some (ustr ''Castle''))] []
       = []"
  by (simp add: castleFeature_def evaluator_defs)

lemma normalizeText_foldedText: "normalizeText rt s = foldedText rt s"
  by (simp add: normalizeText_def foldedText_def removeMarks_def combiningMark_def)

lemma fortName_nameOrDenomination: "fortName fort = nameOrDenomination fort"
  by (simp add: fortName_def nameOrDenomination_def orString_def orElse_def truthy_def
      split: option.splits)

lemma fortAddress_addressOrPlace: "fortAddress fort = addressOrPlace fort"
  by (simp add: fortAddress_def addressOrPlace_def orString_def orElse_def truthy_def
      split: option.splits)

lemma searchFilter_iff:
  "searchFilter rt searchTerm fort \<longleftrightarrow>
     sublist (foldedText rt searchTerm) (foldedText rt (nameOrDenomination fort))
     \<or> sublist (foldedText rt searchTerm) (foldedText rt (addressOrPlace fort))"
proof (cases "searchTerm = []")
  case True
  then have "foldedText rt searchTerm = []"
    using normalizeText_Nil [of rt] by (simp add: normalizeText_foldedText)
  then show ?thesis using True by (simp add: searchFilter_def)
next
  case False
  then show ?thesis
    by (simp add: searchFilter_def includesStr_sublist Let_def normalizeText_foldedText
        fortName_nameOrDenomination fortAddress_addressOrPlace)
qed

lemma normalizeText_examples:
  "normalizeText rt (ustr ''Ch'' @ [0xE2] @ ustr ''teau'') = ustr ''chateau''"
  "normalizeText rt (ustr ''For'' @ [0xEA] @ ustr ''t'') = ustr ''foret''"
  "normalizeText rt (ustr ''  '' @ [0xC9] @ ustr ''GLISE Saint-Andr'' @ [0xE9, 0x20, 0x09])
     = ustr ''eglise saint-andre''"
  "normalizeText rt [0xC0, 0xE7, 0xF1, 0xD6, 0xE5] = ustr ''acnoa''"
  by (simp_all add: search_defs)

lemma search_name_examples:
  "searchFilter rt (ustr ''chateau'') (namedFeature (ustr ''Ch'' @ [0xE2] @ ustr ''teau''))"
  "searchFilter rt (ustr ''Ch'' @ [0xE2] @ ustr ''teau'') (namedFeature (ustr ''chateau''))"
  "searchFilter rt (ustr ''foret'') (namedFeature (ustr ''For'' @ [0xEA] @ ustr ''t''))"
  "searchFilter rt (ustr ''For'' @ [0xEA] @ ustr ''t'') (namedFeature (ustr ''foret''))"
  by (simp_all add: namedFeature_def search_defs)

lemma search_case_trim_examples:
  "searchFilter rt (ustr '' CHATEAU  '') (namedFeature (ustr ''Ch'' @ [0xE2] @ ustr ''teau''))"
  "searchFilter rt (ustr ''teau de v'') (namedFeature (ustr ''  '' @ ustr ''Ch'' @ [0xE2] @ ustr ''teau'' @ ustr '' de Vincennes''))"
  by (simp_all add: namedFeature_def search_defs)

lemma search_miss_examples:
  "\<not> searchFilter rt (ustr ''chateau'') (namedFeature (ustr ''Fort''))"
  "\<not> searchFilter rt (ustr ''chteau'') (namedFeature (ustr ''Ch'' @ [0xE2] @ ustr ''teau''))"
  by (simp_all add: namedFeature_def search_defs)

lemma search_chpdeno_examples:
  "searchFilter rt (ustr ''chateau'') (featureWith [(''chpdeno'', ustr ''Ch'' @ [0xE2] @ ustr ''teau'')])"
  "searchFilter rt (ustr ''chateau'') (featureWith [(''name'', []), (''chpdeno'', ustr ''Ch'' @ [0xE2] @ ustr ''teau'')])"
  "\<not> searchFilter rt (ustr ''chateau'')
       (featureWith [(''name'', ustr ''Bastion''), (''chpdeno'', ustr ''Ch'' @ [0xE2] @ ustr ''teau'')])"
  by (simp_all add: featureWith_def search_defs)

lemma search_chpadrs_examples:
  "searchFilter rt (ustr ''foret'')
     (featureWith [(''name'', ustr ''Bastion''), (''chpadrs'', ustr ''Rue de la '' @ ustr ''For'' @ [0xEA] @ ustr ''t'')])"
  "\<not> searchFilter rt (ustr ''foret'') (featureWith [(''name'', ustr ''Bastion'')])"
  by (simp_all add: featureWith_def search_defs)

lemma search_chplieu_examples:
  "searchFilter rt (ustr ''BESANCON'')
     (featureWith [(''name'', ustr ''Bastion''), (''chplieu'', ustr ''Besan'' @ [0xE7] @ ustr ''on'')])"
  "searchFilter rt (ustr ''besancon'')
     (featureWith [(''name'', ustr ''Bastion''), (''chpadrs'', []), (''chplieu'', ustr ''Besan'' @ [0xE7] @ ustr ''on'')])"
  "\<not> searchFilter rt (ustr ''besancon'')
       (featureWith [(''name'', ustr ''Bastion''), (''chpadrs'', ustr ''Rue Haute''),
                     (''chplieu'', ustr ''Besan'' @ [0xE7] @ ustr ''on'')])"
  by (simp_all add: featureWith_def search_defs)

lemma search_visible_example:
  "filteredFortifications rt [namedFeature (ustr ''Ch'' @ [0xE2] @ ustr ''teau''), namedFeature (ustr ''Fort'')] []
     (ustr ''chateau'')
    = [namedFeature (ustr ''Ch'' @ [0xE2] @ ustr ''teau'')]"
  by (simp add: namedFeature_def search_defs)

lemma search_visible_example_part_002:
  "filteredFortifications_part_002 rt [namedFeature (ustr ''Ch'' @ [0xE2] @ ustr ''teau''), namedFeature (ustr ''Fort'')] []
     (ustr ''chateau'')
    = [namedFeature (ustr ''Ch'' @ [0xE2] @ ustr ''teau'')]"
  by (simp add: namedFeature_def search_defs)

text \<open>
  C5. The search filter holds for a search term and a feature if and only if the folded
  term occurs as a contiguous part of the folded name (\<open>name\<close>, else \<open>chpdeno\<close>) or of the
  folded address (\<open>chpadrs\<close>, else \<open>chplieu\<close>), where folding is NFD, dropping the code units
  U+0300 to U+036F, lower-casing and trimming, as the specification words it. So, on every
  engine: \<open>normalizeText\<close> strips the circumflex, the acute, the grave, the cedilla, the
  tilde, the diaeresis and the ring of Latin-1 letters, lowers the case and trims;
  \<open>chateau\<close> finds a feature named \<open>Ch\<^verbatim>\<open>a^\<close>teau\<close> and \<open>foret\<close> one named \<open>For\<^verbatim>\<open>e^\<close>t\<close>, and
  the accented terms find the features named without accent; a term in capitals and
  padded with spaces finds the same features; a term that occurs nowhere, or only with a
  letter missing, finds nothing; the \<open>chpdeno\<close> is searched when the \<open>name\<close> is absent or
  empty and only then; the address is searched as well as the name, \<open>chplieu\<close> when
  \<open>chpadrs\<close> is absent or empty and only then. Both revisions of the map component select
  the features with it.
\<close>

theorem search_accent_insensitive:
  "(searchFilter rt searchTerm fort \<longleftrightarrow>
      sublist (foldedText rt searchTerm) (foldedText rt (nameOrDenomination fort))
      \<or> sublist (foldedText rt searchTerm) (foldedText rt (addressOrPlace fort)))
   \<and> normalizeText rt (ustr ''Ch'' @ [0xE2] @ ustr ''teau'') = ustr ''chateau''
   \<and> normalizeText rt (ustr ''For'' @ [0xEA] @ ustr ''t'') = ustr ''foret''
   \<and> normalizeText rt (ustr ''  '' @ [0xC9] @ ustr ''GLISE Saint-Andr'' @ [0xE9, 0x20, 0x09])
        = ustr ''eglise saint-andre''
   \<and> normalizeText rt [0xC0, 0xE7, 0xF1, 0xD6, 0xE5] = ustr ''acnoa''
   \<and> searchFilter rt (ustr ''chateau'') (namedFeature (ustr ''Ch'' @ [0xE2] @ ustr ''teau''))
   \<and> searchFilter rt (ustr ''Ch'' @ [0xE2] @ ustr ''teau'') (namedFeature (ustr ''chateau''))
   \<and> searchFilter rt (ustr ''foret'') (namedFeature (ustr ''For'' @ [0xEA] @ ustr ''t''))
   \<and> searchFilter rt (ustr ''For'' @ [0xEA] @ ustr ''t'') (namedFeature (ustr ''foret''))
   \<and> searchFilter rt (ustr '' CHATEAU  '') (namedFeature (ustr ''Ch'' @ [0xE2] @ ustr ''teau''))
   \<and> searchFilter rt (ustr ''teau de v'') (namedFeature (ustr ''  '' @ ustr ''Ch'' @ [0xE2] @ ustr ''teau'' @ ustr '' de Vincennes''))
   \<and> \<not> searchFilter rt (ustr ''chateau'') (namedFeature (ustr ''Fort''))
   \<and> \<not> searchFilter rt (ustr ''chteau'') (namedFeature (ustr ''Ch'' @ [0xE2] @ ustr ''teau''))
   \<and> searchFilter rt (ustr ''chateau'') (featureWith [(''chpdeno'', ustr ''Ch'' @ [0xE2] @ ustr ''teau'')])
   \<and> searchFilter rt (ustr ''chateau'') (featureWith [(''name'', []), (''chpdeno'', ustr ''Ch'' @ [0xE2] @ ustr ''teau'')])
   \<and> \<not> searchFilter rt (ustr ''chateau'')
          (featureWith [(''name'', ustr ''Bastion''), (''chpdeno'', ustr ''Ch'' @ [0xE2] @ ustr ''teau'')])
   \<and> searchFilter rt (ustr ''foret'')
        (featureWith [(''name'', ustr ''Bastion''), (''chpadrs'', ustr ''Rue de la '' @ ustr ''For'' @ [0xEA] @ ustr ''t'')])
   \<and> \<not> searchFilter rt (ustr ''foret'') (featureWith [(''name'', ustr ''Bastion'')])
   \<and> searchFilter rt (ustr ''BESANCON'')
        (featureWith [(''name'', ustr ''Bastion''), (''chplieu'', ustr ''Besan'' @ [0xE7] @ ustr ''on'')])
   \<and> searchFilter rt (ustr ''besancon'')
        (featureWith [(''name'', ustr ''Bastion''), (''chpadrs'', []), (''chplieu'', ustr ''Besan'' @ [0xE7] @ ustr ''on'')])
   \<and> \<not> searchFilter rt (ustr ''besancon'')
          (featureWith [(''name'', ustr ''Bastion''), (''chpadrs'', ustr ''Rue Haute''),
                        (''chplieu'', ustr ''Besan'' @ [0xE7] @ ustr ''on'')])
   \<and> filteredFortifications rt [namedFeature (ustr ''Ch'' @ [0xE2] @ ustr ''teau''), namedFeature (ustr ''Fort'')] []
        (ustr ''chateau'')
       = [namedFeature (ustr ''Ch'' @ [0xE2] @ ustr ''teau'')]
   \<and> filteredFortifications_part_002 rt [namedFeature (ustr ''Ch'' @ [0xE2] @ ustr ''teau''), namedFeature (ustr ''Fort'')] []
        (ustr ''chateau'')
       = [namedFeature (ustr ''Ch'' @ [0xE2] @ ustr ''teau'')]"
  by (intro conjI searchFilter_iff normalizeText_examples search_name_examples
      search_case_trim_examples search_miss_examples search_chpdeno_examples
      search_chpadrs_examples search_chplieu_examples search_visible_example
      search_visible_example_part_002)

lemma passesFilters_part_002_iff:
  "passesFilters rt activeFilters searchTerm fort \<longleftrightarrow>
     trim (fortName fort) \<noteq> [] \<and> passesFilters_part_002 rt activeFilters searchTerm fort"
  by (simp add: passesFilters_def passesFilters_part_002_def)

lemma filteredFortifications_part_002_named:
  "filteredFortifications rt fortifications activeFilters searchTerm =
     filter (\<lambda>fort. trim (fortName fort) \<noteq> [])
       (filteredFortifications_part_002 rt fortifications activeFilters searchTerm)"
proof -
  have "passesFilters rt activeFilters searchTerm =
          (\<lambda>fort. passesFilters_part_002 rt activeFilters searchTerm fort
                     \<and> trim (fortName fort) \<noteq> [])"
    by (intro ext) (auto simp: passesFilters_part_002_iff)
  then show ?thesis
    by (simp add: filteredFortifications_def filteredFortifications_part_002_def)
qed

text \<open>
  C6, as the code has it. In \<open>components/FortificationMap.tsx\<close>, a feature whose \<open>name\<close> and
  \<open>chpdeno\<close> properties are both absent or made of white space only is never in the visible
  set of the map view, whatever the search term and the active filters; when a search
  term or a filter is active, the callback rejects it at its first test, before the search
  and the facets are looked at. The revision \<open>src/unnamed/part_002\<close> of the map view has no
  such test: with no search term and no active filter its visible set is the list as
  given, with this feature in it when the list has it, and otherwise this feature is
  visible when it passes the search and facet tests. The visible set of the first revision
  is the visible set of the second one without the features whose name trims to nothing.
\<close>

theorem unnamed_excluded:
  assumes "blank (getProp (properties fort) ''name'')"
    and "blank (getProp (properties fort) ''chpdeno'')"
  shows "fort \<notin> set (filteredFortifications rt fortifications activeFilters searchTerm)
     \<and> \<not> passesFilters rt activeFilters searchTerm fort
     \<and> filteredFortifications_part_002 rt fortifications [] [] = fortifications
     \<and> (fort \<in> set (filteredFortifications_part_002 rt fortifications activeFilters searchTerm)
          \<longleftrightarrow> fort \<in> set fortifications
               \<and> (searchTerm = [] \<and> activeFilters = []
                   \<or> passesFilters_part_002 rt activeFilters searchTerm fort))
     \<and> filteredFortifications rt fortifications activeFilters searchTerm =
         filter (\<lambda>fort. trim (fortName fort) \<noteq> [])
           (filteredFortifications_part_002 rt fortifications activeFilters searchTerm)"
proof (intro conjI)
  show "fort \<notin> set (filteredFortifications rt fortifications activeFilters searchTerm)"
    using blank_fortName [OF assms] by (simp add: filteredFortifications_def passesFilters_def)
  show "\<not> passesFilters rt activeFilters searchTerm fort"
    using blank_fortName [OF assms] by (simp add: passesFilters_def)
  show "filteredFortifications_part_002 rt fortifications [] [] = fortifications"
    by (simp add: filteredFortifications_part_002_def)
  show "fort \<in> set (filteredFortifications_part_002 rt fortifications activeFilters searchTerm)
          \<longleftrightarrow> fort \<in> set fortifications
               \<and> (searchTerm = [] \<and> activeFilters = []
                   \<or> passesFilters_part_002 rt activeFilters searchTerm fort)"
    by (auto simp: filteredFortifications_part_002_def)
  show "filteredFortifications rt fortifications activeFilters searchTerm =
         filter (\<lambda>fort. trim (fortName fort) \<noteq> [])
           (filteredFortifications_part_002 rt fortifications activeFilters searchTerm)"
    by (rule filteredFortifications_part_002_named)
qed

theorem unnamed_excluded_witness:
  "blank (getProp (properties (namedFeature (ustr ''  ''))) ''name'')
   \<and> blank (getProp (properties (namedFeature (ustr ''  ''))) ''chpdeno'')
   \<and> namedFeature (ustr ''  '') \<notin> set (filteredFortifications plainRuntime
        [namedFeature (ustr ''  ''), castleFeature] [] [])
   \<and> castleFeature \<in> set (filteredFortifications plainRuntime
        [namedFeature (ustr ''  ''), castleFeature] [] [])
   \<and> namedFeature (ustr ''  '') \<notin> set (filteredFortifications plainRuntime
        [namedFeature (ustr ''  ''), castleFeature] [(ustr ''period'', Some (ustr ''medieval''))]
        (ustr ''castle''))
   \<and> filteredFortifications_part_002 plainRuntime [namedFeature (ustr ''  ''), castleFeature] [] []
       = [namedFeature (ustr ''  ''), castleFeature]
   \<and> namedFeature (ustr ''  '') \<in> set (filteredFortifications_part_002 plainRuntime
        [namedFeature (ustr ''  ''), castleFeature] [] [])"
proof -
  have a: "blank (getProp (properties (namedFeature (ustr ''  ''))) ''name'')"
    by (simp add: blank_def namedFeature_def getProp_def lookup_def ustr_def isWhiteSpace_def)
  have b: "blank (getProp (properties (namedFeature (ustr ''  ''))) ''chpdeno'')"
    by (simp add: blank_def namedFeature_def getProp_def lookup_def ustr_def)
  have c: "castleFeature \<in> set (filteredFortifications plainRuntime
        [namedFeature (ustr ''  ''), castleFeature] [] [])"
    by (simp add: castleFeature_def namedFeature_def search_defs)
  note all = unnamed_excluded [OF a b, of plainRuntime "[namedFeature (ustr ''  ''), castleFeature]"]
  have d: "namedFeature (ustr ''  '') \<notin> set (filteredFortifications plainRuntime
        [namedFeature (ustr ''  ''), castleFeature] [] [])"
    using all [of "[]" "[]"] by (rule conjunct1)
  have e: "namedFeature (ustr ''  '') \<notin> set (filteredFortifications plainRuntime
        [namedFeature (ustr ''  ''), castleFeature] [(ustr ''period'', Some (ustr ''medieval''))]
        (ustr ''castle''))"
    using all [of "[(ustr ''period'', Some (ustr ''medieval''))]" "ustr ''castle''"]
    by (rule conjunct1)
  have f: "filteredFortifications_part_002 plainRuntime
             [namedFeature (ustr ''  ''), castleFeature] [] []
       = [namedFeature (ustr ''  ''), castleFeature]"
    using all [of "[]" "[]"] by blast
  have g: "namedFeature (ustr ''  '') \<in> set (filteredFortifications_part_002 plainRuntime
        [namedFeature (ustr ''  ''), castleFeature] [] [])"
    unfolding f by simp
  from a b d c e f g show ?thesis by (intro conjI)
qed

text \<open>
  The claim as stated fails on the revision \<open>src/unnamed/part_002\<close>. A bunker with an
  address and neither \<open>name\<close> nor \<open>chpdeno\<close> is in its visible set in the default state, and
  it is the visible set when the search term \<open>rue\<close> and the filter \<open>{type: "bunker"}\<close> are
  active; the revision \<open>components/FortificationMap.tsx\<close> shows it in neither state.
\<close>

theorem unnamed_shown_counterexample:
  "getProp (properties unnamedBunker) ''name'' = None
   \<and> getProp (properties unnamedBunker) ''chpdeno'' = None
   \<and> filteredFortifications_part_002 plainRuntime [unnamedBunker, castleFeature] [] []
       = [unnamedBunker, castleFeature]
   \<and> filteredFortifications_part_002 plainRuntime [unnamedBunker, castleFeature]
        [(ustr ''type'', Some (ustr ''bunker''))] (ustr ''rue'')
       = [unnamedBunker]
   \<and> filteredFortifications plainRuntime [unnamedBunker, castleFeature] [] [] = [castleFeature]
   \<and> filteredFortifications plainRuntime [unnamedBunker, castleFeature]
        [(ustr ''type'', Some (ustr ''bunker''))] (ustr ''rue'')
       = []"
  by (simp add: unnamedBunker_def featureWith_def castleFeature_def search_defs)

section \<open>The filter index builder\<close>

lemma map_of_assign: "map_of (assign k v m) = (map_of m)(k \<mapsto> v)"
  by (induction m) (auto simp: fun_eq_iff)

lemma keys_assign: "fst ` set (assign k v m) = insert k (fst ` set m)"
  by (induction m) auto

lemma distinct_assign: "distinct (map fst m) \<Longrightarrow> distinct (map fst (assign k v m))"
proof (induction m)
  case Nil
  then show ?case by simp
next
  case (Cons p m)
  then show ?case using keys_assign [of k v m] by (auto simp: image_iff)
qed

lemma tally_Nil: "tally m [] = m" by (simp add: tally_def)
lemma tally_Cons: "tally m (k # ks) = tally (bump k m) ks" by (simp add: tally_def)
lemma tally_append: "tally m (ks @ ls) = tally (tally m ks) ls" by (simp add: tally_def)

lemma distinct_tally: "distinct (map fst m) \<Longrightarrow> distinct (map fst (tally m ks))"
  by (induction ks arbitrary: m) (simp_all add: tally_Nil tally_Cons bump_def distinct_assign)

lemma map_of_tally:
  "map_of (tally m ks) k =
     (if k \<in> set ks then Some (count_list ks k + (case map_of m k of None \<Rightarrow> 0 | Some n \<Rightarrow> n))
      else map_of m k)"
proof (induction ks arbitrary: m)
  case Nil
  then show ?case by (simp add: tally_Nil)
next
  case (Cons a ks)
  show ?case
    by (simp add: tally_Cons Cons.IH bump_def map_of_assign split: option.splits)
qed

lemma set_tally:
  "set (tally [] ks) = (\<lambda>k. (k, count_list ks k)) ` set ks"
proof -
  have d: "distinct (map fst (tally [] ks))" by (rule distinct_tally) simp
  have "(k, n) \<in> set (tally [] ks) \<longleftrightarrow> k \<in> set ks \<and> n = count_list ks k" for k n
  proof -
    have "(k, n) \<in> set (tally [] ks) \<longleftrightarrow> map_of (tally [] ks) k = Some n"
      using map_of_eq_Some_iff [OF d] by simp
    also have "\<dots> \<longleftrightarrow> k \<in> set ks \<and> n = count_list ks k"
      by (auto simp: map_of_tally)
    finally show ?thesis .
  qed
  then show ?thesis by auto
qed

lemma tally_empty_iff: "tally [] ks = [] \<longleftrightarrow> ks = []"
proof
  assume e: "tally [] ks = []"
  show "ks = []"
  proof (cases ks)
    case (Cons k ks')
    have "map_of (tally [] ks) k \<noteq> None" by (simp add: map_of_tally Cons)
    with e show ?thesis by simp
  qed simp
qed (simp add: tally_Nil)

lemma facetOf_type:
  "facetOf (ustr ''type'') fort =
     [orString (orElse (getProp (properties fort) ''chptico'')
                       (getProp (properties fort) ''historic'')) (ustr ''Unknown'')]"
  by (simp add: facetOf_def)

lemma facetOf_period:
  "facetOf (ustr ''period'') fort =
     (case getProp (properties fort) ''period'' of None \<Rightarrow> []
      | Some v \<Rightarrow> if v \<noteq> [] then [v] else [])"
  by (simp add: facetOf_def ustr_def)

lemma facetOf_region:
  "facetOf (ustr ''region'') fort =
     (case getProp (properties fort) ''chpreg'' of None \<Rightarrow> []
      | Some v \<Rightarrow> if v \<noteq> [] then [v] else [])"
  by (simp add: facetOf_def ustr_def)

lemma orString_Unknown: "orString a (ustr ''Unknown'') \<noteq> []"
  by (simp add: orString_def ustr_def split: option.splits)

lemma foldl_countFort:
  "foldl countFort (tm, pm, rm) forts =
     (tally tm (observed (ustr ''type'') forts),
      tally pm (observed (ustr ''period'') forts),
      tally rm (observed (ustr ''region'') forts))"
proof (induction forts arbitrary: tm pm rm)
  case Nil
  then show ?case by (simp add: observed_def tally_Nil)
next
  case (Cons f forts)
  have step: "countFort (tm, pm, rm) f =
      (tally tm (facetOf (ustr ''type'') f), tally pm (facetOf (ustr ''period'') f),
       tally rm (facetOf (ustr ''region'') f))"
    by (simp add: countFort_def facetOf_type facetOf_period facetOf_region tally_Cons tally_Nil
        Let_def orString_Unknown split: option.splits)
  show ?case
    by (simp add: step Cons.IH) (simp add: observed_def tally_append)
qed

lemma pairs_toOptions: "map (\<lambda>opt. (ovalue opt, ocount opt)) (toOptions pre m) = m"
  by (induction m) (auto simp: toOptions_def)

lemma sortByCount_Nil: "sortByCount [] = []"
  by (simp add: sortByCount_def)

lemma sortByCount_Cons: "sortByCount (a # xs) = insertByCount a (sortByCount xs)"
  by (simp add: sortByCount_def)

lemma set_insertByCount: "set (insertByCount a bs) = insert a (set bs)"
  by (induction bs) auto

lemma set_sortByCount: "set (sortByCount xs) = set xs"
  by (induction xs) (simp_all add: sortByCount_Nil sortByCount_Cons set_insertByCount)

lemma length_insertByCount: "length (insertByCount a bs) = Suc (length bs)"
  by (induction bs) auto

lemma length_sortByCount: "length (sortByCount xs) = length xs"
  by (induction xs) (simp_all add: sortByCount_Nil sortByCount_Cons length_insertByCount)

lemma distinct_insertByCount:
  "distinct (map ovalue (insertByCount a bs)) \<longleftrightarrow> distinct (map ovalue (a # bs))"
  by (induction bs) (auto simp: set_insertByCount)

lemma distinct_sortByCount: "distinct (map ovalue (sortByCount xs)) \<longleftrightarrow> distinct (map ovalue xs)"
  by (induction xs)
     (simp_all add: sortByCount_Nil sortByCount_Cons distinct_insertByCount set_sortByCount)

lemma sorted_insertByCount:
  "sorted_wrt (\<lambda>a b. ocount b \<le> ocount a) bs \<Longrightarrow>
   sorted_wrt (\<lambda>a b. ocount b \<le> ocount a) (insertByCount a bs)"
  by (induction bs) (auto simp: set_insertByCount)

lemma sorted_sortByCount: "sorted_wrt (\<lambda>a b. ocount b \<le> ocount a) (sortByCount xs)"
  by (induction xs) (simp_all add: sortByCount_Nil sortByCount_Cons sorted_insertByCount)


lemma length_toOptions: "length (toOptions pre m) = length m"
  by (simp add: toOptions_def)

lemma options_nonempty:
  "0 < length (sortByCount (toOptions pre (tally [] ks))) \<longleftrightarrow> ks \<noteq> []"
  unfolding length_sortByCount length_toOptions by (simp add: tally_empty_iff)

lemma generateFilters_eq:
  "generateFilters forts =
     [facetGroup ''type'' ''Type'' ''type-'' forts]
     @ (if observed (ustr ''period'') forts \<noteq> [] then [facetGroup ''period'' ''Period'' ''period-'' forts] else [])
     @ (if observed (ustr ''region'') forts \<noteq> [] then [facetGroup ''region'' ''Region'' ''region-'' forts] else [])"
  by (simp add: generateFilters_def foldl_countFort facetGroup_def Let_def options_nonempty
      del: length_greater_0_conv)

lemma facetGroup_options:
  "distinct (map ovalue (options (facetGroup g n pre forts)))
   \<and> set (map (\<lambda>opt. (ovalue opt, ocount opt)) (options (facetGroup g n pre forts)))
       = (\<lambda>v. (v, count_list (observed (ustr g) forts) v)) ` set (observed (ustr g) forts)
   \<and> sorted_wrt (\<lambda>a b. ocount b \<le> ocount a) (options (facetGroup g n pre forts))"
proof -
  let ?m = "tally [] (observed (ustr g) forts)"
  have v: "map ovalue (toOptions pre ?m) = map fst ?m"
    using pairs_toOptions [of pre ?m, THEN arg_cong, of "map fst"] by (simp add: comp_def)
  have d: "distinct (map ovalue (toOptions pre ?m))"
    unfolding v by (rule distinct_tally) simp
  have "set (map (\<lambda>opt. (ovalue opt, ocount opt)) (sortByCount (toOptions pre ?m)))
          = set (map (\<lambda>opt. (ovalue opt, ocount opt)) (toOptions pre ?m))"
    by (simp add: set_sortByCount)
  then have s: "set (map (\<lambda>opt. (ovalue opt, ocount opt)) (sortByCount (toOptions pre ?m)))
          = (\<lambda>v. (v, count_list (observed (ustr g) forts) v)) ` set (observed (ustr g) forts)"
    by (simp only: pairs_toOptions set_tally)
  show ?thesis
    unfolding facetGroup_def using d s
    by (simp add: distinct_sortByCount sorted_sortByCount)
qed

lemma observed_period_iff:
  "observed (ustr ''period'') forts \<noteq> [] \<longleftrightarrow>
     (\<exists>f. f \<in> set forts \<and> truthy (getProp (properties f) ''period''))"
  by (auto simp: observed_def facetOf_period truthy_def split: option.splits if_splits)

lemma observed_region_iff:
  "observed (ustr ''region'') forts \<noteq> [] \<longleftrightarrow>
     (\<exists>f. f \<in> set forts \<and> truthy (getProp (properties f) ''chpreg''))"
  by (auto simp: observed_def facetOf_region truthy_def split: option.splits if_splits)

lemma gid_facetGroup: "gid (facetGroup g n pre forts) = ustr g"
  by (simp add: facetGroup_def)

lemma group_ids:
  "ustr ''type'' \<noteq> ustr ''period''" "ustr ''type'' \<noteq> ustr ''region''"
  "ustr ''period'' \<noteq> ustr ''region''"
  by (simp_all add: ustr_def)

lemma in_generateFilters:
  "g \<in> set (generateFilters forts) \<longleftrightarrow>
     g = facetGroup ''type'' ''Type'' ''type-'' forts
     \<or> (observed (ustr ''period'') forts \<noteq> [] \<and> g = facetGroup ''period'' ''Period'' ''period-'' forts)
     \<or> (observed (ustr ''region'') forts \<noteq> [] \<and> g = facetGroup ''region'' ''Region'' ''region-'' forts)"
  by (simp add: generateFilters_eq) blast

lemma period_group_iff:
  "(\<exists>g. g \<in> set (generateFilters forts) \<and> gid g = ustr ''period'') \<longleftrightarrow>
     observed (ustr ''period'') forts \<noteq> []"
proof
  assume "\<exists>g. g \<in> set (generateFilters forts) \<and> gid g = ustr ''period''"
  then obtain g where m: "g \<in> set (generateFilters forts)" and i: "gid g = ustr ''period''"
    by blast
  from m [unfolded in_generateFilters] i group_ids
  show "observed (ustr ''period'') forts \<noteq> []"
    by (elim disjE conjE) (simp_all add: gid_facetGroup)
next
  assume "observed (ustr ''period'') forts \<noteq> []"
  then have "facetGroup ''period'' ''Period'' ''period-'' forts \<in> set (generateFilters forts)"
    by (simp add: in_generateFilters)
  then show "\<exists>g. g \<in> set (generateFilters forts) \<and> gid g = ustr ''period''"
    using gid_facetGroup by blast
qed

lemma region_group_iff:
  "(\<exists>g. g \<in> set (generateFilters forts) \<and> gid g = ustr ''region'') \<longleftrightarrow>
     observed (ustr ''region'') forts \<noteq> []"
proof
  assume "\<exists>g. g \<in> set (generateFilters forts) \<and> gid g = ustr ''region''"
  then obtain g where m: "g \<in> set (generateFilters forts)" and i: "gid g = ustr ''region''"
    by blast
  from m [unfolded in_generateFilters] i group_ids
  show "observed (ustr ''region'') forts \<noteq> []"
    by (elim disjE conjE) (simp_all add: gid_facetGroup)
next
  assume "observed (ustr ''region'') forts \<noteq> []"
  then have "facetGroup ''region'' ''Region'' ''region-'' forts \<in> set (generateFilters forts)"
    by (simp add: in_generateFilters)
  then show "\<exists>g. g \<in> set (generateFilters forts) \<and> gid g = ustr ''region''"
    using gid_facetGroup by blast
qed

text \<open>
  C7. The builder always returns the \<open>type\<close> group, first; it returns a \<open>period\<close> group
  exactly when some feature has a non-empty \<open>period\<close>, and a \<open>region\<close> group exactly when
  some feature has a non-empty \<open>chpreg\<close>. In every group the option values are distinct,
  they are the values observed for the facet (for \<open>type\<close>: \<open>chptico\<close>, else \<open>historic\<close>, else
  \<open>Unknown\<close>), each with the number of its occurrences, and the options are in descending
  order of count.
\<close>

theorem generateFilters_groups:
  "gid (hd (generateFilters forts)) = ustr ''type''
   \<and> ((\<exists>g. g \<in> set (generateFilters forts) \<and> gid g = ustr ''period'') \<longleftrightarrow>
        (\<exists>f. f \<in> set forts \<and> truthy (getProp (properties f) ''period'')))
   \<and> ((\<exists>g. g \<in> set (generateFilters forts) \<and> gid g = ustr ''region'') \<longleftrightarrow>
        (\<exists>f. f \<in> set forts \<and> truthy (getProp (properties f) ''chpreg'')))
   \<and> (\<forall>g\<in>set (generateFilters forts).
         distinct (map ovalue (options g))
         \<and> set (map (\<lambda>opt. (ovalue opt, ocount opt)) (options g))
             = (\<lambda>v. (v, count_list (observed (gid g) forts) v)) ` set (observed (gid g) forts)
         \<and> sorted_wrt (\<lambda>a b. ocount b \<le> ocount a) (options g))"
proof (intro conjI ballI)
  show "gid (hd (generateFilters forts)) = ustr ''type''"
    by (simp add: generateFilters_eq gid_facetGroup)
  show "(\<exists>g. g \<in> set (generateFilters forts) \<and> gid g = ustr ''period'') \<longleftrightarrow>
        (\<exists>f. f \<in> set forts \<and> truthy (getProp (properties f) ''period''))"
    unfolding period_group_iff by (rule observed_period_iff)
  show "(\<exists>g. g \<in> set (generateFilters forts) \<and> gid g = ustr ''region'') \<longleftrightarrow>
        (\<exists>f. f \<in> set forts \<and> truthy (getProp (properties f) ''chpreg''))"
    unfolding region_group_iff by (rule observed_region_iff)
next
  fix g assume "g \<in> set (generateFilters forts)"
  then obtain a n pre where g: "g = facetGroup a n pre forts"
    unfolding in_generateFilters by blast
  have i: "gid g = ustr a" by (simp add: g gid_facetGroup)
  show "distinct (map ovalue (options g))"
    unfolding g using facetGroup_options [of a n pre forts] by blast
  show "set (map (\<lambda>opt. (ovalue opt, ocount opt)) (options g))
             = (\<lambda>v. (v, count_list (observed (gid g) forts) v)) ` set (observed (gid g) forts)"
    unfolding i unfolding g using facetGroup_options [of a n pre forts] by blast
  show "sorted_wrt (\<lambda>a b. ocount b \<le> ocount a) (options g)"
    unfolding g using facetGroup_options [of a n pre forts] by blast
qed


lemma generateFilters_example:
  "generateFilters [namedFeature (ustr ''Ruin''), castleFeature, castleFeature] =
     [\<lparr>gid = ustr ''type'', gname = ustr ''Type'',
       options = [\<lparr>oid = ustr ''type-castle'', label = ustr ''castle'', ovalue = ustr ''castle'', ocount = 2\<rparr>,
                  \<lparr>oid = ustr ''type-Unknown'', label = ustr ''Unknown'', ovalue = ustr ''Unknown'', ocount = 1\<rparr>]\<rparr>]"
  by (simp add: generateFilters_def countFort_def bump_def toOptions_def sortByCount_def
       namedFeature_def castleFeature_def getProp_def lookup_def orElse_def orString_def truthy_def
       ustr_def Let_def)

theorem generateFilters_groups_witness:
  "generateFilters [namedFeature (ustr ''Ruin''), castleFeature, castleFeature] =
     [\<lparr>gid = ustr ''type'', gname = ustr ''Type'',
       options = [\<lparr>oid = ustr ''type-castle'', label = ustr ''castle'', ovalue = ustr ''castle'', ocount = 2\<rparr>,
                  \<lparr>oid = ustr ''type-Unknown'', label = ustr ''Unknown'', ovalue = ustr ''Unknown'', ocount = 1\<rparr>]\<rparr>]
   \<and> observed (ustr ''type'') [namedFeature (ustr ''Ruin''), castleFeature, castleFeature]
       = [ustr ''Unknown'', ustr ''castle'', ustr ''castle'']
   \<and> sorted_wrt (\<lambda>a b. ocount b \<le> ocount a)
        (options (hd (generateFilters [namedFeature (ustr ''Ruin''), castleFeature, castleFeature])))"
proof -
  let ?forts = "[namedFeature (ustr ''Ruin''), castleFeature, castleFeature]"
  have "hd (generateFilters ?forts) \<in> set (generateFilters ?forts)"
    by (simp add: generateFilters_example)
  then have s: "sorted_wrt (\<lambda>a b. ocount b \<le> ocount a) (options (hd (generateFilters ?forts)))"
    using generateFilters_groups [of ?forts] by blast
  have ob: "observed (ustr ''type'') ?forts = [ustr ''Unknown'', ustr ''castle'', ustr ''castle'']"
    by (simp add: observed_def facetOf_def namedFeature_def castleFeature_def getProp_def
        lookup_def orElse_def orString_def truthy_def ustr_def)
  show ?thesis by (intro conjI generateFilters_example ob s)
qed

section \<open>The enrichment client\<close>

lemma tryCatch_ret_resolves: "\<exists>y s'. tryCatch m (\<lambda>e. ret x) s = (Inr y, s')"
  by (cases "m s") (auto simp: tryCatch_def ret_def split: sum.splits)

lemma fetchWikidataData_resolves: "\<exists>b n'. fetchWikidataData p t n = (Inr b, n')"
  unfolding fetchWikidataData_def by (rule tryCatch_ret_resolves)

lemma fetchWikipediaData_resolves: "\<exists>b n'. fetchWikipediaData p t n = (Inr b, n')"
  unfolding fetchWikipediaData_def by (rule tryCatch_ret_resolves)

lemma fetchWikipediaImages_resolves: "\<exists>b n'. fetchWikipediaImages p t n = (Inr b, n')"
  unfolding fetchWikipediaImages_def by (rule tryCatch_ret_resolves)

lemma searchWikimediaCommons_resolves: "\<exists>b n'. searchWikimediaCommons p t n = (Inr b, n')"
  unfolding searchWikimediaCommons_def by (rule tryCatch_ret_resolves)

lemma fallbackImages_nonempty: "fallbackImages \<noteq> []"
  by (simp add: fallbackImages_def)

lemma fetchGoogleImages_resolves: "\<exists>l n'. fetchGoogleImages p t n = (Inr l, n') \<and> l \<noteq> []"
proof -
  obtain b n' where "searchWikimediaCommons p t n = (Inr b, n')"
    using searchWikimediaCommons_resolves [of p t n] by auto
  then show ?thesis
    by (simp add: fetchGoogleImages_def tryCatch_def andThen_def ret_def fallbackImages_nonempty)
qed

lemma andThen_Inr:
  "andThen m k s = (Inr y, s2) \<longleftrightarrow> (\<exists>x s1. m s = (Inr x, s1) \<and> k x s1 = (Inr y, s2))"
  by (cases "m s") (auto simp: andThen_def split: sum.splits)

lemma frame_refl: "frame a w w"
  by (simp add: frame_def)

lemma frame_trans: "frame a w w1 \<Longrightarrow> frame a w1 w2 \<Longrightarrow> frame a w w2"
  by (simp add: frame_def)

lemma keeps_ret: "keeps f a (ret x)"
  by (simp add: keeps_def ret_def frame_refl)

lemma keeps_throw: "keeps f a (throw e)"
  by (simp add: keeps_def throw_def frame_refl)

lemma keeps_readBag: "keeps f a (readBag b)"
  by (simp add: keeps_def readBag_def frame_refl)

lemma keeps_readFeature: "keeps f a (readFeature g)"
  by (simp add: keeps_def readFeature_def frame_refl)

lemma keeps_onOutside: "keeps f a (onOutside m)"
  by (auto simp: keeps_def onOutside_def frame_def split: prod.splits)

lemma keeps_modifyBag: "keeps f a (modifyBag f g)"
  by (auto simp: keeps_def modifyBag_def frame_def)

lemma keeps_andThen: "keeps f a m \<Longrightarrow> (\<And>x. keeps f a (k x)) \<Longrightarrow> keeps f a (andThen m k)"
proof (unfold keeps_def, intro allI impI)
  fix w r w'
  assume m: "\<forall>w r w'. properties (featureAt w f) = a \<longrightarrow> m w = (r, w') \<longrightarrow> frame a w w'"
    and k: "\<And>x. \<forall>w r w'. properties (featureAt w f) = a \<longrightarrow> k x w = (r, w') \<longrightarrow> frame a w w'"
    and a: "properties (featureAt w f) = a" and run: "andThen m k w = (r, w')"
  obtain r1 w1 where m1: "m w = (r1, w1)" by (cases "m w")
  with m a have f1: "frame a w w1" by blast
  show "frame a w w'"
  proof (cases r1)
    case (Inl e)
    with run m1 have "w' = w1" by (simp add: andThen_def)
    with f1 show ?thesis by simp
  next
    case (Inr x)
    with run m1 have kx: "k x w1 = (r, w')" by (simp add: andThen_def)
    have "properties (featureAt w1 f) = a" using f1 a by (simp add: frame_def)
    with k kx have "frame a w1 w'" by blast
    with f1 show ?thesis by (rule frame_trans)
  qed
qed


lemma keeps_tryCatch: "keeps f a m \<Longrightarrow> (\<And>e. keeps f a (h e)) \<Longrightarrow> keeps f a (tryCatch m h)"
proof (unfold keeps_def, intro allI impI)
  fix w r w'
  assume m: "\<forall>w r w'. properties (featureAt w f) = a \<longrightarrow> m w = (r, w') \<longrightarrow> frame a w w'"
    and h: "\<And>e. \<forall>w r w'. properties (featureAt w f) = a \<longrightarrow> h e w = (r, w') \<longrightarrow> frame a w w'"
    and a: "properties (featureAt w f) = a" and run: "tryCatch m h w = (r, w')"
  obtain r1 w1 where m1: "m w = (r1, w1)" by (cases "m w")
  with m a have f1: "frame a w w1" by blast
  show "frame a w w'"
  proof (cases r1)
    case (Inr x)
    with run m1 have "w' = w1" by (simp add: tryCatch_def)
    with f1 show ?thesis by simp
  next
    case (Inl e)
    with run m1 have he: "h e w1 = (r, w')" by (simp add: tryCatch_def)
    have "properties (featureAt w1 f) = a" using f1 a by (simp add: frame_def)
    with h he have "frame a w1 w'" by blast
    with f1 show ?thesis by (rule frame_trans)
  qed
qed

lemma keeps_if: "keeps f a m \<Longrightarrow> keeps f a k \<Longrightarrow> keeps f a (if c then m else k)"
  by simp

lemma keeps_case_option:
  "keeps f a m \<Longrightarrow> (\<And>x. keeps f a (k x)) \<Longrightarrow> keeps f a (case v of None \<Rightarrow> m | Some x \<Rightarrow> k x)"
  by (cases v) simp_all

lemma keeps_case_prod:
  "(\<And>x y. keeps f a (k x y)) \<Longrightarrow> keeps f a (case v of (x, y) \<Rightarrow> k x y)"
  by (cases v) simp

lemmas keeps_intros = keeps_ret keeps_throw keeps_readBag keeps_readFeature keeps_onOutside
  keeps_modifyBag keeps_andThen keeps_tryCatch keeps_if keeps_case_option keeps_case_prod

lemma keeps_imageStep: "keeps fortCopy a (imageStep p fort props fortCopy)"
  unfolding imageStep_def Let_def by (intro keeps_intros)

lemma keeps_wikidataStep: "keeps fortCopy a (wikidataStep p props fortCopy)"
  unfolding wikidataStep_def Let_def by (intro keeps_intros)

lemma keeps_wikipediaStep: "keeps fortCopy a (wikipediaStep p props fortCopy)"
  unfolding wikipediaStep_def Let_def by (intro keeps_intros)

lemma keeps_stampStep: "keeps fortCopy a (stampStep p fortCopy)"
  unfolding stampStep_def by (intro keeps_intros)


lemma getProp_setProp: "getProp (setProp k v b) k = Some v"
  by (simp add: getProp_def setProp_def lookup_def map_of_assign)

lemma recentlyFetched_eq:
  "recentlyFetched p a w =
     (Inr (fresh p (bagAt w a) (fst (clock p (outside w)))),
      if truthy (getProp (bagAt w a) ''lastFetched'') then w\<lparr>outside := snd (clock p (outside w))\<rparr>
      else w)"
  by (auto simp: recentlyFetched_def fresh_def andThen_def readBag_def ret_def onOutside_def
      truthy_def split: option.splits prod.splits)

lemma fresh_truthy: "fresh p bag t \<Longrightarrow> truthy (getProp bag ''lastFetched'')"
  by (auto simp: fresh_def truthy_def split: option.splits)

lemma enrichBody_eq:
  "enrichBody p fort w =
     (if fresh p (bagAt w (properties (featureAt w fort))) (fst (clock p (outside w)))
      then (Inr (nextFeature w), afterCopy p fort w)
      else andThen (imageStep p fort (properties (featureAt w fort)) (nextFeature w)) (\<lambda>u.
           andThen (wikidataStep p (properties (featureAt w fort)) (nextFeature w)) (\<lambda>u.
           andThen (wikipediaStep p (properties (featureAt w fort)) (nextFeature w)) (\<lambda>u.
           andThen (stampStep p (nextFeature w)) (\<lambda>u.
           ret (nextFeature w))))) (afterCopy p fort w))"
  by (simp add: enrichBody_def andThen_def setLoading_def setError_def readFeature_def
      spreadCopy_def recentlyFetched_eq ret_def afterCopy_def Let_def fresh_truthy)


lemma stampStep_eq:
  "stampStep p c w =
     (Inr (), w\<lparr>outside := snd (clock p (outside w)),
               bagAt := (bagAt w)(properties (featureAt w c) :=
                  setProp ''lastFetched'' (toISOString p (fst (clock p (outside w))))
                    (bagAt w (properties (featureAt w c))))\<rparr>)"
  by (simp add: stampStep_def andThen_def onOutside_def modifyBag_def split: prod.splits)

lemma keepsD: "keeps f a m \<Longrightarrow> properties (featureAt w f) = a \<Longrightarrow> m w = (r, w') \<Longrightarrow> frame a w w'"
  by (auto simp: keeps_def)

lemma afterCopy_simps:
  "featureAt (afterCopy p fort w) = (featureAt w)(nextFeature w := featureAt w fort)"
  "nextFeature (afterCopy p fort w) = Suc (nextFeature w)"
  "bagAt (afterCopy p fort w) = bagAt w"
  "loading (afterCopy p fort w) = True"
  "error (afterCopy p fort w) = None"
  "outside (afterCopy p fort w) =
     (if truthy (getProp (bagAt w (properties (featureAt w fort))) ''lastFetched'')
      then snd (clock p (outside w)) else outside w)"
  by (simp_all add: afterCopy_def Let_def)

lemma stale_success:
  assumes stale: "\<not> fresh p (bagAt w (properties (featureAt w fort))) (fst (clock p (outside w)))"
    and run: "enrichBody p fort w = (Inr r, w')"
  shows "r = nextFeature w"
    and "featureAt w' = (featureAt w)(nextFeature w := featureAt w fort)"
    and "\<forall>b. b \<noteq> properties (featureAt w fort) \<longrightarrow> bagAt w' b = bagAt w b"
    and "error w' = None"
    and "\<exists>n. getProp (bagAt w' (properties (featureAt w fort))) ''lastFetched''
               = Some (toISOString p (fst (clock p n)))
             \<and> outside w' = snd (clock p n)"
proof -
  let ?a = "properties (featureAt w fort)" and ?c = "nextFeature w"
  let ?w3 = "afterCopy p fort w"
  from run stale obtain w4 w5 w6 u4 u5 u6 u7 where
    s4: "imageStep p fort ?a ?c ?w3 = (Inr u4, w4)" and
    s5: "wikidataStep p ?a ?c w4 = (Inr u5, w5)" and
    s6: "wikipediaStep p ?a ?c w5 = (Inr u6, w6)" and
    s7: "stampStep p ?c w6 = (Inr u7, w')" and r: "r = ?c"
    unfolding enrichBody_eq by (auto simp: andThen_Inr ret_def)
  have a3: "properties (featureAt ?w3 ?c) = ?a" by (simp add: afterCopy_simps)
  have f4: "frame ?a ?w3 w4" by (rule keepsD [OF keeps_imageStep a3 s4])
  then have a4: "properties (featureAt w4 ?c) = ?a" using a3 by (simp add: frame_def)
  have f5: "frame ?a w4 w5" by (rule keepsD [OF keeps_wikidataStep a4 s5])
  then have a5: "properties (featureAt w5 ?c) = ?a" using a4 by (simp add: frame_def)
  have f6: "frame ?a w5 w6" by (rule keepsD [OF keeps_wikipediaStep a5 s6])
  then have a6: "properties (featureAt w6 ?c) = ?a" using a5 by (simp add: frame_def)
  have f36: "frame ?a ?w3 w6" using f4 f5 f6 by (blast intro: frame_trans)
  have w': "w' = w6\<lparr>outside := snd (clock p (outside w6)),
               bagAt := (bagAt w6)(?a :=
                  setProp ''lastFetched'' (toISOString p (fst (clock p (outside w6)))) (bagAt w6 ?a))\<rparr>"
    using s7 a6 by (simp add: stampStep_eq)
  show "r = nextFeature w" by (rule r)
  show "featureAt w' = (featureAt w)(nextFeature w := featureAt w fort)"
    using f36 by (simp add: w' frame_def afterCopy_simps)
  show "\<forall>b. b \<noteq> ?a \<longrightarrow> bagAt w' b = bagAt w b"
    using f36 by (simp add: w' frame_def afterCopy_simps)
  show "error w' = None"
    using f36 by (simp add: w' frame_def afterCopy_simps)
  show "\<exists>n. getProp (bagAt w' ?a) ''lastFetched'' = Some (toISOString p (fst (clock p n)))
             \<and> outside w' = snd (clock p n)"
    by (rule exI [of _ "outside w6"]) (simp add: w' getProp_setProp)
qed

lemma fresh_run:
  assumes "fresh p (bagAt w (properties (featureAt w fort))) (fst (clock p (outside w)))"
  shows "enrichFortification p fort w = (nextFeature w, (afterCopy p fort w)\<lparr>loading := False\<rparr>)"
  using assms by (simp add: enrichFortification_def enrichBody_eq)


lemmas js_defs = andThen_def tryCatch_def ret_def throw_def onOutside_def readBag_def
  readFeature_def modifyBag_def fetchUrl_def responseJson_def encodeURIComponent_def

lemma offline_fetchGoogleImages:
  "wellFormed (t @ ustr '' fortification'') \<Longrightarrow>
     fetchGoogleImages (offline d) t n = (Inr fallbackImages, n + 1)"
  by (simp add: fetchGoogleImages_def searchWikimediaCommons_def js_defs offline_def
      fallbackImages_nonempty)

lemma offline_fetchWikipediaData:
  "\<not> wellFormed t \<Longrightarrow> fetchWikipediaData (offline d) t n = (Inr emptyBody, n)"
  by (simp add: fetchWikipediaData_def js_defs offline_def)

lemma offline_fetchWikipediaImages:
  "\<not> wellFormed t \<Longrightarrow> fetchWikipediaImages (offline d) t n = (Inr [], n)"
  by (simp add: fetchWikipediaImages_def js_defs offline_def)

lemma name_wellFormed: "wellFormed (ustr ''Fort Test'' @ ustr '' fortification'')"
  by (simp add: ustr_def isHighSurrogate_def isLowSurrogate_def)

lemma title_malformed: "\<not> wellFormed (afterColon (ustr ''en:'' @ [0xD800]))"
  by (simp add: ustr_def afterColon_def isHighSurrogate_def isLowSurrogate_def)

lemma searchTerm_example:
  "getProp bag ''name'' = Some (ustr ''Fort Test'') \<Longrightarrow> searchTermOf p f bag = ustr ''Fort Test''"
  by (simp add: searchTermOf_def orElse_def orString_def truthy_def ustr_def)

lemma props_lone:
  "getProp loneSurrogateBag ''name'' = Some (ustr ''Fort Test'')"
  "getProp loneSurrogateBag ''lastFetched'' = None"
  "getProp loneSurrogateBag ''wikidata'' = None"
  "getProp loneSurrogateBag ''wikipedia'' = Some (ustr ''en:'' @ [0xD800])"
  by (simp_all add: loneSurrogateBag_def getProp_def lookup_def ustr_def)

lemma getProp_setProp_other:
  "ustr k \<noteq> ustr k' \<Longrightarrow> getProp (setProp k v b) k' = getProp b k'"
  by (simp add: getProp_def setProp_def lookup_def map_of_assign)

lemma getProp_imageUrls_update: "getProp (b\<lparr>imageUrls := x\<rparr>) k = getProp b k"
  by (simp add: getProp_def)

lemma imageUrls_setProp: "imageUrls (setProp k v b) = imageUrls b"
  by (simp add: setProp_def)

lemma key_neqs:
  "ustr ''imageSource'' \<noteq> ustr ''wikidata''" "ustr ''imageSource'' \<noteq> ustr ''wikipedia''"
  "ustr ''imageSource'' \<noteq> ustr ''lastFetched''" "ustr ''imageSource'' \<noteq> ustr ''name''"
  "ustr ''lastFetched'' \<noteq> ustr ''imageSource''"
  by (simp_all add: ustr_def)

lemma offline_imageStep:
  "getProp (bagAt w a) ''name'' = Some (ustr ''Fort Test'') \<Longrightarrow>
   imageStep (offline d) f a c w =
     (Inr (), w\<lparr>outside := outside w + 1,
               bagAt := (bagAt w)(properties (featureAt w c) :=
                 setProp ''imageSource'' (ustr ''google'')
                   ((bagAt w (properties (featureAt w c)))\<lparr>imageUrls := Some fallbackImages\<rparr>))\<rparr>)"
  by (simp add: imageStep_def js_defs searchTerm_example offline_fetchGoogleImages name_wellFormed
      fallbackImages_nonempty)

lemma wikidataStep_none:
  "getProp (bagAt w a) ''wikidata'' = None \<Longrightarrow> wikidataStep p a c w = (Inr (), w)"
  by (simp add: wikidataStep_def js_defs)

lemma wikipediaStep_none:
  "getProp (bagAt w a) ''wikipedia'' = None \<Longrightarrow> wikipediaStep p a c w = (Inr (), w)"
  by (simp add: wikipediaStep_def js_defs)

lemma offline_wikipediaStep_malformed:
  "getProp (bagAt w a) ''wikipedia'' = Some s \<Longrightarrow> s \<noteq> [] \<Longrightarrow> \<not> wellFormed (afterColon s) \<Longrightarrow>
   wikipediaStep (offline d) a c w = (Inl URIError, w)"
  by (simp add: wikipediaStep_def js_defs offline_fetchWikipediaData offline_fetchWikipediaImages
      emptyBody_def Let_def)

lemma lone_body:
  "enrichBody (offline 86400000) 0 (storeWith loneSurrogateBag) =
     (Inl URIError,
      (storeWith loneSurrogateBag)
        \<lparr>loading := True, error := None,
         featureAt := (featureAt (storeWith loneSurrogateBag))(1 := featureAt (storeWith loneSurrogateBag) 0),
         nextFeature := 2,
         outside := 1761476400001,
         bagAt := (bagAt (storeWith loneSurrogateBag))
           (0 := setProp ''imageSource'' (ustr ''google'') (loneSurrogateBag\<lparr>imageUrls := Some fallbackImages\<rparr>))\<rparr>)"
proof -
  let ?w = "storeWith loneSurrogateBag"
  let ?w3 = "afterCopy (offline 86400000) 0 ?w"
  let ?w4 = "?w3\<lparr>outside := outside ?w3 + 1,
               bagAt := (bagAt ?w3)(0 :=
                 setProp ''imageSource'' (ustr ''google'') (loneSurrogateBag\<lparr>imageUrls := Some fallbackImages\<rparr>))\<rparr>"
  have stale: "\<not> fresh (offline 86400000) (bagAt ?w (properties (featureAt ?w 0)))
                  (fst (clock (offline 86400000) (outside ?w)))"
    by (simp add: fresh_def storeWith_def props_lone)
  have s4: "imageStep (offline 86400000) 0 0 1 ?w3 = (Inr (), ?w4)"
    by (subst offline_imageStep) (simp_all add: afterCopy_simps storeWith_def props_lone)
  have s5: "wikidataStep (offline 86400000) 0 1 ?w4 = (Inr (), ?w4)"
    by (rule wikidataStep_none)
       (simp add: afterCopy_simps storeWith_def props_lone getProp_setProp_other
          getProp_imageUrls_update key_neqs)
  have s6: "wikipediaStep (offline 86400000) 0 1 ?w4 = (Inl URIError, ?w4)"
    by (rule offline_wikipediaStep_malformed [where s = "ustr ''en:'' @ [0xD800]"])
       (simp_all add: afterCopy_simps storeWith_def props_lone getProp_setProp_other
          getProp_imageUrls_update key_neqs title_malformed)
  show ?thesis
    unfolding enrichBody_eq using stale
    by (simp add: storeWith_def andThen_def s4 [unfolded storeWith_def, simplified]
          s5 [unfolded storeWith_def, simplified] s6 [unfolded storeWith_def, simplified])
       (simp add: afterCopy_def storeWith_def props_lone truthy_def)
qed


lemma props_fetchedAt:
  "getProp (fetchedAt s) ''name'' = Some (ustr ''Fort Test'')"
  "getProp (fetchedAt s) ''lastFetched'' = Some s"
  "getProp (fetchedAt s) ''wikidata'' = None"
  "getProp (fetchedAt s) ''wikipedia'' = None"
  by (simp_all add: fetchedAt_def getProp_def lookup_def ustr_def)

lemma instants_simps:
  "map_of instants (ustr ''2025-10-25T10:00:00.000Z'') = Some 1761386400000"
  "map_of instants (ustr ''2025-10-25T10:30:00.000Z'') = Some 1761388200000"
  "map_of instants (ustr ''2025-10-26T09:00:00.000Z'') = Some 1761469200000"
  "isoString 1761476400001 = ustr ''2025-10-26T11:00:00.001Z''"
  "ustr ''2025-10-25T10:00:00.000Z'' \<noteq> []" "ustr ''2025-10-25T10:30:00.000Z'' \<noteq> []"
  "ustr ''2025-10-26T09:00:00.000Z'' \<noteq> []"
  by (simp_all add: instants_def isoString_def ustr_def)

lemma offline_fresh:
  "fresh (offline d) (fetchedAt s) today \<longleftrightarrow>
     s \<noteq> [] \<and> (case map_of instants s of None \<Rightarrow> False | Some t \<Rightarrow> today - d < t)"
  by (cases "map_of instants s") (simp_all add: fresh_def props_fetchedAt offline_def)

lemma stale_body:
  "enrichBody (offline 86400000) 0 (storeWith (fetchedAt (ustr ''2025-10-25T10:00:00.000Z''))) =
     (Inr 1,
      (storeWith (fetchedAt (ustr ''2025-10-25T10:00:00.000Z'')))
        \<lparr>loading := True, error := None,
         featureAt := (featureAt (storeWith (fetchedAt (ustr ''2025-10-25T10:00:00.000Z''))))
            (1 := featureAt (storeWith (fetchedAt (ustr ''2025-10-25T10:00:00.000Z''))) 0),
         nextFeature := 2,
         outside := 1761476400001,
         bagAt := (bagAt (storeWith (fetchedAt (ustr ''2025-10-25T10:00:00.000Z''))))
           (0 := setProp ''lastFetched'' (ustr ''2025-10-26T11:00:00.001Z'')
                   (setProp ''imageSource'' (ustr ''google'')
                      ((fetchedAt (ustr ''2025-10-25T10:00:00.000Z''))\<lparr>imageUrls := Some fallbackImages\<rparr>)))\<rparr>)"
proof -
  let ?bag = "fetchedAt (ustr ''2025-10-25T10:00:00.000Z'')"
  let ?w = "storeWith ?bag"
  let ?w3 = "afterCopy (offline 86400000) 0 ?w"
  let ?w4 = "?w3\<lparr>outside := outside ?w3 + 1,
               bagAt := (bagAt ?w3)(0 :=
                 setProp ''imageSource'' (ustr ''google'') (?bag\<lparr>imageUrls := Some fallbackImages\<rparr>))\<rparr>"
  have stale: "\<not> fresh (offline 86400000) (bagAt ?w (properties (featureAt ?w 0)))
                  (fst (clock (offline 86400000) (outside ?w)))"
    by (simp add: storeWith_def offline_fresh instants_simps) (simp add: offline_def)
  have s4: "imageStep (offline 86400000) 0 0 1 ?w3 = (Inr (), ?w4)"
    by (subst offline_imageStep) (simp_all add: afterCopy_simps storeWith_def props_fetchedAt)
  have s5: "wikidataStep (offline 86400000) 0 1 ?w4 = (Inr (), ?w4)"
    by (rule wikidataStep_none)
       (simp add: afterCopy_simps storeWith_def props_fetchedAt getProp_setProp_other
          getProp_imageUrls_update key_neqs)
  have s6: "wikipediaStep (offline 86400000) 0 1 ?w4 = (Inr (), ?w4)"
    by (rule wikipediaStep_none)
       (simp add: afterCopy_simps storeWith_def props_fetchedAt getProp_setProp_other
          getProp_imageUrls_update key_neqs)
  show ?thesis
    unfolding enrichBody_eq using stale
    by (simp add: storeWith_def andThen_def ret_def stampStep_eq
          s4 [unfolded storeWith_def, simplified]
          s5 [unfolded storeWith_def, simplified] s6 [unfolded storeWith_def, simplified])
       (simp add: afterCopy_def storeWith_def props_fetchedAt truthy_def instants_simps offline_def)
qed

text \<open>
  The claim as stated fails where the local day is not 24 hours long. On 26 October 2025
  at 11:00 UTC in a zone that left summer time that night, the day before lasted 25
  hours: a \<open>lastFetched\<close> that is 24 hours and a half old is still later than
  \<open>setDate(getDate() - 1)\<close>, and the call returns without a request and without writing.
\<close>

theorem calendar_day_counterexample:
  "getProp (fetchedAt (ustr ''2025-10-25T10:30:00.000Z'')) ''lastFetched''
      = Some (ustr ''2025-10-25T10:30:00.000Z'')
   \<and> parseDate (offline 90000000) (ustr ''2025-10-25T10:30:00.000Z'') = Some 1761388200000
   \<and> fst (clock (offline 90000000) (outside (storeWith (fetchedAt (ustr ''2025-10-25T10:30:00.000Z'')))))
       - 1761388200000 > 86400000
   \<and> fst (enrichFortification (offline 90000000) 0
            (storeWith (fetchedAt (ustr ''2025-10-25T10:30:00.000Z'')))) = 1
   \<and> bagAt (snd (enrichFortification (offline 90000000) 0
            (storeWith (fetchedAt (ustr ''2025-10-25T10:30:00.000Z'')))))
       = bagAt (storeWith (fetchedAt (ustr ''2025-10-25T10:30:00.000Z'')))
   \<and> outside (snd (enrichFortification (offline 90000000) 0
            (storeWith (fetchedAt (ustr ''2025-10-25T10:30:00.000Z'')))))
       = outside (storeWith (fetchedAt (ustr ''2025-10-25T10:30:00.000Z'')))"
proof -
  let ?w = "storeWith (fetchedAt (ustr ''2025-10-25T10:30:00.000Z''))"
  have f: "fresh (offline 90000000) (bagAt ?w (properties (featureAt ?w 0)))
             (fst (clock (offline 90000000) (outside ?w)))"
    by (simp add: storeWith_def offline_fresh instants_simps) (simp add: offline_def)
  show ?thesis
    unfolding fresh_run [OF f]
    by (simp add: props_fetchedAt afterCopy_simps instants_simps)
       (simp add: offline_def storeWith_def instants_simps)
qed


text \<open>
  C8, as the code has it. If \<open>lastFetched\<close> is a non-empty string that parses to an instant
  later than \<open>previousDay\<close> of the present instant (the same local time on the calendar day
  before), the call returns a copy with the fields of the feature, writes to no bag and
  makes no request: the outside has only had its clock read. Otherwise the body runs the
  image, Wikidata and Wikipedia steps and the stamp, from the state after the copy; and
  when the body ends without exception, \<open>lastFetched\<close> holds the reading of the clock that
  was taken last, whatever the lookups returned.
\<close>

theorem freshness_within_one_day:
  "(fresh p (bagAt w (properties (featureAt w fort))) (fst (clock p (outside w))) \<longrightarrow>
       fst (enrichFortification p fort w) = nextFeature w
     \<and> featureAt (snd (enrichFortification p fort w)) (nextFeature w) = featureAt w fort
     \<and> bagAt (snd (enrichFortification p fort w)) = bagAt w
     \<and> outside (snd (enrichFortification p fort w)) = snd (clock p (outside w)))
   \<and> (\<not> fresh p (bagAt w (properties (featureAt w fort))) (fst (clock p (outside w))) \<longrightarrow>
       enrichBody p fort w =
         andThen (imageStep p fort (properties (featureAt w fort)) (nextFeature w)) (\<lambda>u.
         andThen (wikidataStep p (properties (featureAt w fort)) (nextFeature w)) (\<lambda>u.
         andThen (wikipediaStep p (properties (featureAt w fort)) (nextFeature w)) (\<lambda>u.
         andThen (stampStep p (nextFeature w)) (\<lambda>u.
         ret (nextFeature w))))) (afterCopy p fort w)
     \<and> (\<forall>r w'. enrichBody p fort w = (Inr r, w') \<longrightarrow>
          (\<exists>n. getProp (bagAt (snd (enrichFortification p fort w)) (properties (featureAt w fort)))
                  ''lastFetched'' = Some (toISOString p (fst (clock p n)))
               \<and> outside (snd (enrichFortification p fort w)) = snd (clock p n))))"
proof (intro conjI impI allI)
  assume f: "fresh p (bagAt w (properties (featureAt w fort))) (fst (clock p (outside w)))"
  show "fst (enrichFortification p fort w) = nextFeature w"
    and "featureAt (snd (enrichFortification p fort w)) (nextFeature w) = featureAt w fort"
    and "bagAt (snd (enrichFortification p fort w)) = bagAt w"
    and "outside (snd (enrichFortification p fort w)) = snd (clock p (outside w))"
    using fresh_truthy [OF f] by (simp_all add: fresh_run [OF f] afterCopy_simps)
next
  assume "\<not> fresh p (bagAt w (properties (featureAt w fort))) (fst (clock p (outside w)))"
  then show "enrichBody p fort w =
         andThen (imageStep p fort (properties (featureAt w fort)) (nextFeature w)) (\<lambda>u.
         andThen (wikidataStep p (properties (featureAt w fort)) (nextFeature w)) (\<lambda>u.
         andThen (wikipediaStep p (properties (featureAt w fort)) (nextFeature w)) (\<lambda>u.
         andThen (stampStep p (nextFeature w)) (\<lambda>u.
         ret (nextFeature w))))) (afterCopy p fort w)"
    by (simp add: enrichBody_eq)
next
  fix r w'
  assume stale: "\<not> fresh p (bagAt w (properties (featureAt w fort))) (fst (clock p (outside w)))"
    and run: "enrichBody p fort w = (Inr r, w')"
  have e: "enrichFortification p fort w = (r, w'\<lparr>loading := False\<rparr>)"
    by (simp add: enrichFortification_def run)
  from stale_success(5) [OF stale run]
  show "\<exists>n. getProp (bagAt (snd (enrichFortification p fort w)) (properties (featureAt w fort)))
                  ''lastFetched'' = Some (toISOString p (fst (clock p n)))
            \<and> outside (snd (enrichFortification p fort w)) = snd (clock p n)"
    by (simp add: e)
qed

lemma fresh_example:
  "fresh (offline 86400000) (bagAt (storeWith (fetchedAt (ustr ''2025-10-26T09:00:00.000Z'')))
       (properties (featureAt (storeWith (fetchedAt (ustr ''2025-10-26T09:00:00.000Z''))) 0)))
     (fst (clock (offline 86400000) (outside (storeWith (fetchedAt (ustr ''2025-10-26T09:00:00.000Z''))))))"
  by (simp add: storeWith_def offline_fresh instants_simps) (simp add: offline_def)

lemma stale_example:
  "\<not> fresh (offline 86400000) (bagAt (storeWith (fetchedAt (ustr ''2025-10-25T10:00:00.000Z'')))
       (properties (featureAt (storeWith (fetchedAt (ustr ''2025-10-25T10:00:00.000Z''))) 0)))
     (fst (clock (offline 86400000) (outside (storeWith (fetchedAt (ustr ''2025-10-25T10:00:00.000Z''))))))"
  by (simp add: storeWith_def offline_fresh instants_simps) (simp add: offline_def)

theorem freshness_within_one_day_witness:
  "fresh (offline 86400000) (fetchedAt (ustr ''2025-10-26T09:00:00.000Z'')) 1761476400000
   \<and> bagAt (snd (enrichFortification (offline 86400000) 0
                 (storeWith (fetchedAt (ustr ''2025-10-26T09:00:00.000Z'')))))
     = bagAt (storeWith (fetchedAt (ustr ''2025-10-26T09:00:00.000Z'')))
   \<and> outside (snd (enrichFortification (offline 86400000) 0
                 (storeWith (fetchedAt (ustr ''2025-10-26T09:00:00.000Z''))))) = 1761476400000
   \<and> \<not> fresh (offline 86400000) (fetchedAt (ustr ''2025-10-25T10:00:00.000Z'')) 1761476400000
   \<and> getProp (bagAt (snd (enrichFortification (offline 86400000) 0
                 (storeWith (fetchedAt (ustr ''2025-10-25T10:00:00.000Z''))))) 0) ''lastFetched''
       = Some (ustr ''2025-10-26T11:00:00.001Z'')
   \<and> outside (snd (enrichFortification (offline 86400000) 0
                 (storeWith (fetchedAt (ustr ''2025-10-25T10:00:00.000Z''))))) = 1761476400001"
proof -
  let ?f = "storeWith (fetchedAt (ustr ''2025-10-26T09:00:00.000Z''))"
  let ?s = "storeWith (fetchedAt (ustr ''2025-10-25T10:00:00.000Z''))"
  have fr: "fresh (offline 86400000) (fetchedAt (ustr ''2025-10-26T09:00:00.000Z'')) 1761476400000"
    by (simp add: offline_fresh instants_simps)
  have st: "\<not> fresh (offline 86400000) (fetchedAt (ustr ''2025-10-25T10:00:00.000Z'')) 1761476400000"
    by (simp add: offline_fresh instants_simps)
  have a: "bagAt (snd (enrichFortification (offline 86400000) 0 ?f)) = bagAt ?f"
    and b: "outside (snd (enrichFortification (offline 86400000) 0 ?f)) = 1761476400000"
    using freshness_within_one_day [of "offline 86400000" ?f 0] fresh_example
    by (simp_all add: offline_def storeWith_def)
  have "\<exists>n. getProp (bagAt (snd (enrichFortification (offline 86400000) 0 ?s))
                  (properties (featureAt ?s 0))) ''lastFetched''
               = Some (toISOString (offline 86400000) (fst (clock (offline 86400000) n)))
            \<and> outside (snd (enrichFortification (offline 86400000) 0 ?s))
               = snd (clock (offline 86400000) n)"
    using freshness_within_one_day [of "offline 86400000" ?s 0] stale_example stale_body
    by blast
  then have "getProp (bagAt (snd (enrichFortification (offline 86400000) 0 ?s)) 0) ''lastFetched''
               = Some (isoString (outside (snd (enrichFortification (offline 86400000) 0 ?s))))"
    by (auto simp: offline_def storeWith_def)
  moreover have d: "outside (snd (enrichFortification (offline 86400000) 0 ?s)) = 1761476400001"
    by (simp add: enrichFortification_def stale_body)
  ultimately have c: "getProp (bagAt (snd (enrichFortification (offline 86400000) 0 ?s)) 0)
             ''lastFetched'' = Some (ustr ''2025-10-26T11:00:00.001Z'')"
    by (simp add: instants_simps)
  show ?thesis using fr st a b c d by simp
qed

text \<open>
  C9 at a failing input. The feature has a name and a \<open>wikipedia\<close> property whose title is
  a lone surrogate; the network is down. The image step stores the preset images through
  the copy, then \<open>encodeURIComponent\<close> throws in the body. The call resolves with the
  object it was given, address 0, and records the error; but the bag of that object now
  holds \<open>imageUrls\<close> and \<open>imageSource\<close>, and no \<open>lastFetched\<close>.
\<close>

theorem exception_returns_mutated_original:
  "fst (enrichFortification (offline 86400000) 0 (storeWith loneSurrogateBag)) = 0
   \<and> error (snd (enrichFortification (offline 86400000) 0 (storeWith loneSurrogateBag)))
       = Some URIError
   \<and> imageUrls (bagAt (storeWith loneSurrogateBag)
        (properties (featureAt (storeWith loneSurrogateBag) 0))) = None
   \<and> imageUrls (bagAt (snd (enrichFortification (offline 86400000) 0 (storeWith loneSurrogateBag)))
        (properties (featureAt (snd (enrichFortification (offline 86400000) 0
           (storeWith loneSurrogateBag))) 0))) = Some fallbackImages
   \<and> getProp (bagAt (snd (enrichFortification (offline 86400000) 0 (storeWith loneSurrogateBag)))
        (properties (featureAt (snd (enrichFortification (offline 86400000) 0
           (storeWith loneSurrogateBag))) 0))) ''imageSource'' = Some (ustr ''google'')
   \<and> getProp (bagAt (snd (enrichFortification (offline 86400000) 0 (storeWith loneSurrogateBag)))
        (properties (featureAt (snd (enrichFortification (offline 86400000) 0
           (storeWith loneSurrogateBag))) 0))) ''lastFetched'' = None"
  by (simp add: enrichFortification_def lone_body)
     (simp add: storeWith_def loneSurrogateBag_def getProp_def setProp_def lookup_def ustr_def)

text \<open>
  C10. When the body ends without exception, the call returns a new feature object with
  the fields of the one it was given, which itself is unchanged: both hold the address of
  the same bag. No other bag is written. After a run that was not skipped as fresh, the
  \<open>lastFetched\<close> stamp is read through the feature that was passed in.
\<close>

theorem shallow_copy_shares_properties:
  assumes alloc: "fort < nextFeature w" and run: "enrichBody p fort w = (Inr r, w')"
  shows "fst (enrichFortification p fort w) = r \<and> r \<noteq> fort
     \<and> featureAt (snd (enrichFortification p fort w)) r = featureAt w fort
     \<and> featureAt (snd (enrichFortification p fort w)) fort = featureAt w fort
     \<and> properties (featureAt (snd (enrichFortification p fort w)) r)
         = properties (featureAt (snd (enrichFortification p fort w)) fort)
     \<and> (\<forall>b. b \<noteq> properties (featureAt w fort) \<longrightarrow>
           bagAt (snd (enrichFortification p fort w)) b = bagAt w b)
     \<and> (\<not> fresh p (bagAt w (properties (featureAt w fort))) (fst (clock p (outside w))) \<longrightarrow>
          (\<exists>n. getProp (bagAt (snd (enrichFortification p fort w))
                    (properties (featureAt (snd (enrichFortification p fort w)) fort)))
                  ''lastFetched'' = Some (toISOString p (fst (clock p n)))))"
proof -
  have e: "enrichFortification p fort w = (r, w'\<lparr>loading := False\<rparr>)"
    by (simp add: enrichFortification_def run)
  show ?thesis
  proof (cases "fresh p (bagAt w (properties (featureAt w fort))) (fst (clock p (outside w)))")
    case True
    with run have "r = nextFeature w" and "w' = afterCopy p fort w"
      by (simp_all add: enrichBody_eq)
    with alloc True show ?thesis by (simp add: e afterCopy_simps)
  next
    case False
    note s = stale_success [OF False run]
    from s(5) obtain n where
      n: "getProp (bagAt w' (properties (featureAt w fort))) ''lastFetched''
            = Some (toISOString p (fst (clock p n)))" by blast
    show ?thesis using alloc s(1) s(2) s(3) n False by (auto simp: e)
  qed
qed

theorem shallow_copy_shares_properties_witness:
  "fst (enrichFortification (offline 86400000) 0
          (storeWith (fetchedAt (ustr ''2025-10-25T10:00:00.000Z'')))) = 1
   \<and> properties (featureAt (snd (enrichFortification (offline 86400000) 0
          (storeWith (fetchedAt (ustr ''2025-10-25T10:00:00.000Z''))))) 1)
       = properties (featureAt (snd (enrichFortification (offline 86400000) 0
          (storeWith (fetchedAt (ustr ''2025-10-25T10:00:00.000Z''))))) 0)
   \<and> imageUrls (bagAt (storeWith (fetchedAt (ustr ''2025-10-25T10:00:00.000Z'')))
        (properties (featureAt (storeWith (fetchedAt (ustr ''2025-10-25T10:00:00.000Z''))) 0))) = None
   \<and> imageUrls (bagAt (snd (enrichFortification (offline 86400000) 0
          (storeWith (fetchedAt (ustr ''2025-10-25T10:00:00.000Z'')))))
        (properties (featureAt (snd (enrichFortification (offline 86400000) 0
          (storeWith (fetchedAt (ustr ''2025-10-25T10:00:00.000Z''))))) 0))) = Some fallbackImages"
proof -
  let ?s = "storeWith (fetchedAt (ustr ''2025-10-25T10:00:00.000Z''))"
  have alloc: "0 < nextFeature ?s" by (simp add: storeWith_def)
  note t = shallow_copy_shares_properties [OF alloc stale_body]
  have one: "fst (enrichFortification (offline 86400000) 0 ?s) = 1"
    and share: "properties (featureAt (snd (enrichFortification (offline 86400000) 0 ?s)) 1)
       = properties (featureAt (snd (enrichFortification (offline 86400000) 0 ?s)) 0)"
    using t by simp_all
  have before: "imageUrls (bagAt ?s (properties (featureAt ?s 0))) = None"
    by (simp add: storeWith_def fetchedAt_def)
  have after: "imageUrls (bagAt (snd (enrichFortification (offline 86400000) 0 ?s))
        (properties (featureAt (snd (enrichFortification (offline 86400000) 0 ?s)) 0)))
        = Some fallbackImages"
    by (simp add: enrichFortification_def stale_body)
       (simp add: storeWith_def imageUrls_setProp)
  show ?thesis using one share before after by simp
qed

subsection \<open>The revision without the image search\<close>

text \<open>
  The same facts for \<open>enrichFortification\<close> of \<open>src/hooks/useExternalData.ts\<close>: the freshness
  test and the stamp, the shared bag, and a run in which the original is returned after
  an exception with a \<open>period\<close> that the Wikidata step had written.
\<close>

lemma keeps_wikipediaStepBasic: "keeps fortCopy a (wikipediaStepBasic p props fortCopy)"
  unfolding wikipediaStepBasic_def Let_def by (intro keeps_intros)

lemma enrichBodyBasic_eq:
  "enrichBodyBasic p fort w =
     (if fresh p (bagAt w (properties (featureAt w fort))) (fst (clock p (outside w)))
      then (Inr (nextFeature w), afterCopy p fort w)
      else andThen (wikidataStep p (properties (featureAt w fort)) (nextFeature w)) (\<lambda>u.
           andThen (wikipediaStepBasic p (properties (featureAt w fort)) (nextFeature w)) (\<lambda>u.
           andThen (stampStep p (nextFeature w)) (\<lambda>u.
           ret (nextFeature w)))) (afterCopy p fort w))"
  by (simp add: enrichBodyBasic_def andThen_def setLoading_def setError_def readFeature_def
      spreadCopy_def recentlyFetched_eq ret_def afterCopy_def Let_def fresh_truthy)

lemma stale_success_basic:
  assumes stale: "\<not> fresh p (bagAt w (properties (featureAt w fort))) (fst (clock p (outside w)))"
    and run: "enrichBodyBasic p fort w = (Inr r, w')"
  shows "r = nextFeature w"
    and "featureAt w' = (featureAt w)(nextFeature w := featureAt w fort)"
    and "\<forall>b. b \<noteq> properties (featureAt w fort) \<longrightarrow> bagAt w' b = bagAt w b"
    and "\<exists>n. getProp (bagAt w' (properties (featureAt w fort))) ''lastFetched''
               = Some (toISOString p (fst (clock p n)))
             \<and> outside w' = snd (clock p n)"
proof -
  let ?a = "properties (featureAt w fort)" and ?c = "nextFeature w"
  let ?w3 = "afterCopy p fort w"
  from run stale obtain w5 w6 u5 u6 u7 where
    s5: "wikidataStep p ?a ?c ?w3 = (Inr u5, w5)" and
    s6: "wikipediaStepBasic p ?a ?c w5 = (Inr u6, w6)" and
    s7: "stampStep p ?c w6 = (Inr u7, w')" and r: "r = ?c"
    unfolding enrichBodyBasic_eq by (auto simp: andThen_Inr ret_def)
  have a3: "properties (featureAt ?w3 ?c) = ?a" by (simp add: afterCopy_simps)
  have f5: "frame ?a ?w3 w5" by (rule keepsD [OF keeps_wikidataStep a3 s5])
  then have a5: "properties (featureAt w5 ?c) = ?a" using a3 by (simp add: frame_def)
  have f6: "frame ?a w5 w6" by (rule keepsD [OF keeps_wikipediaStepBasic a5 s6])
  then have a6: "properties (featureAt w6 ?c) = ?a" using a5 by (simp add: frame_def)
  have f36: "frame ?a ?w3 w6" using f5 f6 by (blast intro: frame_trans)
  have w': "w' = w6\<lparr>outside := snd (clock p (outside w6)),
               bagAt := (bagAt w6)(?a :=
                  setProp ''lastFetched'' (toISOString p (fst (clock p (outside w6)))) (bagAt w6 ?a))\<rparr>"
    using s7 a6 by (simp add: stampStep_eq)
  show "r = nextFeature w" by (rule r)
  show "featureAt w' = (featureAt w)(nextFeature w := featureAt w fort)"
    using f36 by (simp add: w' frame_def afterCopy_simps)
  show "\<forall>b. b \<noteq> ?a \<longrightarrow> bagAt w' b = bagAt w b"
    using f36 by (simp add: w' frame_def afterCopy_simps)
  show "\<exists>n. getProp (bagAt w' ?a) ''lastFetched'' = Some (toISOString p (fst (clock p n)))
             \<and> outside w' = snd (clock p n)"
    by (rule exI [of _ "outside w6"]) (simp add: w' getProp_setProp)
qed

lemma fresh_run_basic:
  assumes "fresh p (bagAt w (properties (featureAt w fort))) (fst (clock p (outside w)))"
  shows "enrichFortificationBasic p fort w = (nextFeature w, (afterCopy p fort w)\<lparr>loading := False\<rparr>)"
  using assms by (simp add: enrichFortificationBasic_def enrichBodyBasic_eq)

lemma basic_freshness:
  "(fresh p (bagAt w (properties (featureAt w fort))) (fst (clock p (outside w))) \<longrightarrow>
       fst (enrichFortificationBasic p fort w) = nextFeature w
     \<and> featureAt (snd (enrichFortificationBasic p fort w)) (nextFeature w) = featureAt w fort
     \<and> bagAt (snd (enrichFortificationBasic p fort w)) = bagAt w
     \<and> outside (snd (enrichFortificationBasic p fort w)) = snd (clock p (outside w)))
   \<and> (\<not> fresh p (bagAt w (properties (featureAt w fort))) (fst (clock p (outside w))) \<longrightarrow>
       (\<forall>r w'. enrichBodyBasic p fort w = (Inr r, w') \<longrightarrow>
          (\<exists>n. getProp (bagAt (snd (enrichFortificationBasic p fort w)) (properties (featureAt w fort)))
                  ''lastFetched'' = Some (toISOString p (fst (clock p n)))
               \<and> outside (snd (enrichFortificationBasic p fort w)) = snd (clock p n))))"
proof (intro conjI impI allI)
  assume f: "fresh p (bagAt w (properties (featureAt w fort))) (fst (clock p (outside w)))"
  show "fst (enrichFortificationBasic p fort w) = nextFeature w"
    and "featureAt (snd (enrichFortificationBasic p fort w)) (nextFeature w) = featureAt w fort"
    and "bagAt (snd (enrichFortificationBasic p fort w)) = bagAt w"
    and "outside (snd (enrichFortificationBasic p fort w)) = snd (clock p (outside w))"
    using fresh_truthy [OF f] by (simp_all add: fresh_run_basic [OF f] afterCopy_simps)
next
  fix r w'
  assume stale: "\<not> fresh p (bagAt w (properties (featureAt w fort))) (fst (clock p (outside w)))"
    and run: "enrichBodyBasic p fort w = (Inr r, w')"
  have e: "enrichFortificationBasic p fort w = (r, w'\<lparr>loading := False\<rparr>)"
    by (simp add: enrichFortificationBasic_def run)
  from stale_success_basic(4) [OF stale run]
  show "\<exists>n. getProp (bagAt (snd (enrichFortificationBasic p fort w)) (properties (featureAt w fort)))
                  ''lastFetched'' = Some (toISOString p (fst (clock p n)))
            \<and> outside (snd (enrichFortificationBasic p fort w)) = snd (clock p n)"
    by (simp add: e)
qed

lemma basic_shallow_copy:
  assumes alloc: "fort < nextFeature w" and run: "enrichBodyBasic p fort w = (Inr r, w')"
  shows "fst (enrichFortificationBasic p fort w) = r \<and> r \<noteq> fort
     \<and> featureAt (snd (enrichFortificationBasic p fort w)) r = featureAt w fort
     \<and> featureAt (snd (enrichFortificationBasic p fort w)) fort = featureAt w fort
     \<and> properties (featureAt (snd (enrichFortificationBasic p fort w)) r)
         = properties (featureAt (snd (enrichFortificationBasic p fort w)) fort)
     \<and> (\<forall>b. b \<noteq> properties (featureAt w fort) \<longrightarrow>
           bagAt (snd (enrichFortificationBasic p fort w)) b = bagAt w b)"
proof -
  have e: "enrichFortificationBasic p fort w = (r, w'\<lparr>loading := False\<rparr>)"
    by (simp add: enrichFortificationBasic_def run)
  show ?thesis
  proof (cases "fresh p (bagAt w (properties (featureAt w fort))) (fst (clock p (outside w)))")
    case True
    with run have "r = nextFeature w" and "w' = afterCopy p fort w"
      by (simp_all add: enrichBodyBasic_eq)
    with alloc True show ?thesis by (simp add: e afterCopy_simps)
  next
    case False
    note s = stale_success_basic [OF False run]
    show ?thesis using alloc s(1) s(2) s(3) by (auto simp: e)
  qed
qed


lemma malformed_fetchWikipediaData:
  "\<not> wellFormed t \<Longrightarrow> fetchWikipediaData p t n = (Inr emptyBody, n)"
  by (simp add: fetchWikipediaData_def js_defs)

lemma malformed_fetchWikipediaImages:
  "\<not> wellFormed t \<Longrightarrow> fetchWikipediaImages p t n = (Inr [], n)"
  by (simp add: fetchWikipediaImages_def js_defs)

lemma wikipediaStepBasic_malformed:
  "getProp (bagAt w a) ''wikipedia'' = Some s \<Longrightarrow> s \<noteq> [] \<Longrightarrow> \<not> wellFormed (afterColon s) \<Longrightarrow>
   wikipediaStepBasic p a c w = (Inl URIError, w)"
  by (simp add: wikipediaStepBasic_def js_defs malformed_fetchWikipediaData
      malformed_fetchWikipediaImages emptyBody_def Let_def)

lemma wikidataOnline_fetch:
  "fetchWikidataData wikidataOnline (ustr ''Q1'') n = (Inr wikidataDocument, n + 1)"
  by (simp add: fetchWikidataData_def js_defs wikidataOnline_def offline_def ustr_def)

lemma wikidataDocument_claims:
  "entities wikidataDocument = Some [(ustr ''Q1'',
      \<lparr>claims = Some [(ustr ''P2348'', [Some (StringValue (ustr ''medieval''))])]\<rparr>)]"
  "firstClaim \<lparr>claims = Some [(ustr ''P2348'', [Some (StringValue (ustr ''medieval''))])]\<rparr> ''P2348''
     = Some (ustr ''medieval'')"
  "firstClaim \<lparr>claims = Some [(ustr ''P2348'', [Some (StringValue (ustr ''medieval''))])]\<rparr> ''P149''
     = None"
  by (simp_all add: wikidataDocument_def firstClaim_def truthyValue_def String_def ustr_def)

lemma wikidataOnline_wikidataStep:
  "getProp (bagAt w a) ''wikidata'' = Some (ustr ''Q1'') \<Longrightarrow>
   wikidataStep wikidataOnline a c w =
     (Inr (), w\<lparr>outside := outside w + 1,
               bagAt := (bagAt w)(properties (featureAt w c) :=
                 setProp ''period'' (ustr ''medieval'') (bagAt w (properties (featureAt w c))))\<rparr>)"
proof -
  have ne: "ustr ''Q1'' \<noteq> []" by (simp add: ustr_def)
  assume "getProp (bagAt w a) ''wikidata'' = Some (ustr ''Q1'')"
  then show ?thesis
    by (simp add: wikidataStep_def js_defs wikidataOnline_fetch wikidataDocument_claims ne)
qed

lemma props_entity:
  "getProp loneSurrogateEntityBag ''lastFetched'' = None"
  "getProp loneSurrogateEntityBag ''period'' = None"
  "getProp loneSurrogateEntityBag ''wikidata'' = Some (ustr ''Q1'')"
  "getProp loneSurrogateEntityBag ''wikipedia'' = Some (ustr ''en:'' @ [0xD800])"
  by (simp_all add: loneSurrogateEntityBag_def getProp_def lookup_def ustr_def)

lemma period_key_neqs:
  "ustr ''period'' \<noteq> ustr ''wikipedia''" "ustr ''period'' \<noteq> ustr ''lastFetched''"
  by (simp_all add: ustr_def)

lemma entity_body:
  "enrichBodyBasic wikidataOnline 0 (storeWith loneSurrogateEntityBag) =
     (Inl URIError,
      (storeWith loneSurrogateEntityBag)
        \<lparr>loading := True, error := None,
         featureAt := (featureAt (storeWith loneSurrogateEntityBag))
            (1 := featureAt (storeWith loneSurrogateEntityBag) 0),
         nextFeature := 2,
         outside := 1761476400001,
         bagAt := (bagAt (storeWith loneSurrogateEntityBag))
           (0 := setProp ''period'' (ustr ''medieval'') loneSurrogateEntityBag)\<rparr>)"
proof -
  let ?w = "storeWith loneSurrogateEntityBag"
  let ?w3 = "afterCopy wikidataOnline 0 ?w"
  let ?w5 = "?w3\<lparr>outside := outside ?w3 + 1,
               bagAt := (bagAt ?w3)(0 := setProp ''period'' (ustr ''medieval'') loneSurrogateEntityBag)\<rparr>"
  have stale: "\<not> fresh wikidataOnline (bagAt ?w (properties (featureAt ?w 0)))
                  (fst (clock wikidataOnline (outside ?w)))"
    by (simp add: fresh_def storeWith_def props_entity)
  have s5: "wikidataStep wikidataOnline 0 1 ?w3 = (Inr (), ?w5)"
    by (subst wikidataOnline_wikidataStep) (simp_all add: afterCopy_simps storeWith_def props_entity)
  have s6: "wikipediaStepBasic wikidataOnline 0 1 ?w5 = (Inl URIError, ?w5)"
    by (rule wikipediaStepBasic_malformed [where s = "ustr ''en:'' @ [0xD800]"])
       (simp_all add: afterCopy_simps storeWith_def props_entity getProp_setProp_other
          period_key_neqs title_malformed)
  show ?thesis
    unfolding enrichBodyBasic_eq using stale
    by (simp add: storeWith_def andThen_def s5 [unfolded storeWith_def, simplified]
          s6 [unfolded storeWith_def, simplified])
       (simp add: afterCopy_def storeWith_def props_entity truthy_def)
qed

lemma basic_returns_mutated_after_exception:
  "fst (enrichFortificationBasic wikidataOnline 0 (storeWith loneSurrogateEntityBag)) = 0
   \<and> error (snd (enrichFortificationBasic wikidataOnline 0 (storeWith loneSurrogateEntityBag)))
       = Some URIError
   \<and> getProp (bagAt (storeWith loneSurrogateEntityBag)
        (properties (featureAt (storeWith loneSurrogateEntityBag) 0))) ''period'' = None
   \<and> getProp (bagAt (snd (enrichFortificationBasic wikidataOnline 0 (storeWith loneSurrogateEntityBag)))
        (properties (featureAt (snd (enrichFortificationBasic wikidataOnline 0
           (storeWith loneSurrogateEntityBag))) 0))) ''period'' = Some (ustr ''medieval'')"
  by (simp add: enrichFortificationBasic_def entity_body)
     (simp add: storeWith_def props_entity getProp_setProp)

end
